theory Spec2Isabelle
  imports Complex_Main
begin

section \<open>Python strings and the Unicode classes the program relies on\<close>

text \<open>
  A Python \<^verbatim>\<open>str\<close> is a sequence of Unicode code points. A code point is a natural
  number here, so that the characters beyond Latin-1 that the sanitizer is meant for
  (emoji, dashes) are single characters, as they are in Python.
\<close>

type_synonym ustring = "nat list"

text \<open>An ASCII literal of the source, as a Python string.\<close>

definition u :: "string \<Rightarrow> ustring" where
  "u s = map of_char s"

fun in_ranges :: "nat \<Rightarrow> (nat \<times> nat) list \<Rightarrow> bool" where
  "in_ranges c [] = False"
| "in_ranges c ((lo, hi) # rs) = ((lo \<le> c \<and> c \<le> hi) \<or> in_ranges c rs)"

text \<open>
  \<^verbatim>\<open>str.isspace\<close> of one character, which is also what \<^verbatim>\<open>\s\<close> matches in a
  \<^verbatim>\<open>str\<close> pattern and what \<^verbatim>\<open>str.strip()\<close> removes: TAB to CR, FS to US, SPACE,
  NEL, NBSP, OGHAM SPACE MARK, EN QUAD to HAIR SPACE, LINE and PARAGRAPH SEPARATOR,
  NARROW NBSP, MEDIUM MATHEMATICAL SPACE, IDEOGRAPHIC SPACE.
\<close>

definition space_ranges :: "(nat \<times> nat) list" where
  "space_ranges =
    [(9, 13), (28, 32), (133, 133), (160, 160), (5760, 5760), (8192, 8202),
     (8232, 8233), (8239, 8239), (8287, 8287), (12288, 12288)]"

definition py_isspace :: "nat \<Rightarrow> bool" where
  "py_isspace c = in_ranges c space_ranges"

text \<open>
  \<^verbatim>\<open>str.isalnum\<close> of one character (alphabetic, decimal, digit or numeric), as inclusive
  ranges of code points of the Unicode Character Database 14.0.0 that CPython 3.11
  ships. The regular-expression class \<^verbatim>\<open>\w\<close> of a \<^verbatim>\<open>str\<close> pattern is this set and
  the underscore.
\<close>

definition alnum_ranges :: "(nat \<times> nat) list" where
  "alnum_ranges =
  [
   (48, 57), (65, 90), (97, 122), (170, 170), (178, 179), (181, 181), (185, 186), (188, 190),
   (192, 214), (216, 246), (248, 705), (710, 721), (736, 740), (748, 748), (750, 750), (880,
   884), (886, 887), (890, 893), (895, 895), (902, 902), (904, 906), (908, 908), (910, 929),
   (931, 1013), (1015, 1153), (1162, 1327), (1329, 1366), (1369, 1369), (1376, 1416), (1488,
   1514), (1519, 1522), (1568, 1610), (1632, 1641), (1646, 1647), (1649, 1747), (1749, 1749),
   (1765, 1766), (1774, 1788), (1791, 1791), (1808, 1808), (1810, 1839), (1869, 1957), (1969,
   1969), (1984, 2026), (2036, 2037), (2042, 2042), (2048, 2069), (2074, 2074), (2084, 2084),
   (2088, 2088), (2112, 2136), (2144, 2154), (2160, 2183), (2185, 2190), (2208, 2249), (2308,
   2361), (2365, 2365), (2384, 2384), (2392, 2401), (2406, 2415), (2417, 2432), (2437, 2444),
   (2447, 2448), (2451, 2472), (2474, 2480), (2482, 2482), (2486, 2489), (2493, 2493), (2510,
   2510), (2524, 2525), (2527, 2529), (2534, 2545), (2548, 2553), (2556, 2556), (2565, 2570),
   (2575, 2576), (2579, 2600), (2602, 2608), (2610, 2611), (2613, 2614), (2616, 2617), (2649,
   2652), (2654, 2654), (2662, 2671), (2674, 2676), (2693, 2701), (2703, 2705), (2707, 2728),
   (2730, 2736), (2738, 2739), (2741, 2745), (2749, 2749), (2768, 2768), (2784, 2785), (2790,
   2799), (2809, 2809), (2821, 2828), (2831, 2832), (2835, 2856), (2858, 2864), (2866, 2867),
   (2869, 2873), (2877, 2877), (2908, 2909), (2911, 2913), (2918, 2927), (2929, 2935), (2947,
   2947), (2949, 2954), (2958, 2960), (2962, 2965), (2969, 2970), (2972, 2972), (2974, 2975),
   (2979, 2980), (2984, 2986), (2990, 3001), (3024, 3024), (3046, 3058), (3077, 3084), (3086,
   3088), (3090, 3112), (3114, 3129), (3133, 3133), (3160, 3162), (3165, 3165), (3168, 3169),
   (3174, 3183), (3192, 3198), (3200, 3200), (3205, 3212), (3214, 3216), (3218, 3240), (3242,
   3251), (3253, 3257), (3261, 3261), (3293, 3294), (3296, 3297), (3302, 3311), (3313, 3314),
   (3332, 3340), (3342, 3344), (3346, 3386), (3389, 3389), (3406, 3406), (3412, 3414), (3416,
   3425), (3430, 3448), (3450, 3455), (3461, 3478), (3482, 3505), (3507, 3515), (3517, 3517),
   (3520, 3526), (3558, 3567), (3585, 3632), (3634, 3635), (3648, 3654), (3664, 3673), (3713,
   3714), (3716, 3716), (3718, 3722), (3724, 3747), (3749, 3749), (3751, 3760), (3762, 3763),
   (3773, 3773), (3776, 3780), (3782, 3782), (3792, 3801), (3804, 3807), (3840, 3840), (3872,
   3891), (3904, 3911), (3913, 3948), (3976, 3980), (4096, 4138), (4159, 4169), (4176, 4181),
   (4186, 4189), (4193, 4193), (4197, 4198), (4206, 4208), (4213, 4225), (4238, 4238), (4240,
   4249), (4256, 4293), (4295, 4295), (4301, 4301), (4304, 4346), (4348, 4680), (4682, 4685),
   (4688, 4694), (4696, 4696), (4698, 4701), (4704, 4744), (4746, 4749), (4752, 4784), (4786,
   4789), (4792, 4798), (4800, 4800), (4802, 4805), (4808, 4822), (4824, 4880), (4882, 4885),
   (4888, 4954), (4969, 4988), (4992, 5007), (5024, 5109), (5112, 5117), (5121, 5740), (5743,
   5759), (5761, 5786), (5792, 5866), (5870, 5880), (5888, 5905), (5919, 5937), (5952, 5969),
   (5984, 5996), (5998, 6000), (6016, 6067), (6103, 6103), (6108, 6108), (6112, 6121), (6128,
   6137), (6160, 6169), (6176, 6264), (6272, 6276), (6279, 6312), (6314, 6314), (6320, 6389),
   (6400, 6430), (6470, 6509), (6512, 6516), (6528, 6571), (6576, 6601), (6608, 6618), (6656,
   6678), (6688, 6740), (6784, 6793), (6800, 6809), (6823, 6823), (6917, 6963), (6981, 6988),
   (6992, 7001), (7043, 7072), (7086, 7141), (7168, 7203), (7232, 7241), (7245, 7293), (7296,
   7304), (7312, 7354), (7357, 7359), (7401, 7404), (7406, 7411), (7413, 7414), (7418, 7418),
   (7424, 7615), (7680, 7957), (7960, 7965), (7968, 8005), (8008, 8013), (8016, 8023), (8025,
   8025), (8027, 8027), (8029, 8029), (8031, 8061), (8064, 8116), (8118, 8124), (8126, 8126),
   (8130, 8132), (8134, 8140), (8144, 8147), (8150, 8155), (8160, 8172), (8178, 8180), (8182,
   8188), (8304, 8305), (8308, 8313), (8319, 8329), (8336, 8348), (8450, 8450), (8455, 8455),
   (8458, 8467), (8469, 8469), (8473, 8477), (8484, 8484), (8486, 8486), (8488, 8488), (8490,
   8493), (8495, 8505), (8508, 8511), (8517, 8521), (8526, 8526), (8528, 8585), (9312, 9371),
   (9450, 9471), (10102, 10131), (11264, 11492), (11499, 11502), (11506, 11507), (11517,
   11517), (11520, 11557), (11559, 11559), (11565, 11565), (11568, 11623), (11631, 11631),
   (11648, 11670), (11680, 11686), (11688, 11694), (11696, 11702), (11704, 11710), (11712,
   11718), (11720, 11726), (11728, 11734), (11736, 11742), (11823, 11823), (12293, 12295),
   (12321, 12329), (12337, 12341), (12344, 12348), (12353, 12438), (12445, 12447), (12449,
   12538), (12540, 12543), (12549, 12591), (12593, 12686), (12690, 12693), (12704, 12735),
   (12784, 12799), (12832, 12841), (12872, 12879), (12881, 12895), (12928, 12937), (12977,
   12991), (13312, 19903), (19968, 42124), (42192, 42237), (42240, 42508), (42512, 42539),
   (42560, 42606), (42623, 42653), (42656, 42735), (42775, 42783), (42786, 42888), (42891,
   42954), (42960, 42961), (42963, 42963), (42965, 42969), (42994, 43009), (43011, 43013),
   (43015, 43018), (43020, 43042), (43056, 43061), (43072, 43123), (43138, 43187), (43216,
   43225), (43250, 43255), (43259, 43259), (43261, 43262), (43264, 43301), (43312, 43334),
   (43360, 43388), (43396, 43442), (43471, 43481), (43488, 43492), (43494, 43518), (43520,
   43560), (43584, 43586), (43588, 43595), (43600, 43609), (43616, 43638), (43642, 43642),
   (43646, 43695), (43697, 43697), (43701, 43702), (43705, 43709), (43712, 43712), (43714,
   43714), (43739, 43741), (43744, 43754), (43762, 43764), (43777, 43782), (43785, 43790),
   (43793, 43798), (43808, 43814), (43816, 43822), (43824, 43866), (43868, 43881), (43888,
   44002), (44016, 44025), (44032, 55203), (55216, 55238), (55243, 55291), (63744, 64109),
   (64112, 64217), (64256, 64262), (64275, 64279), (64285, 64285), (64287, 64296), (64298,
   64310), (64312, 64316), (64318, 64318), (64320, 64321), (64323, 64324), (64326, 64433),
   (64467, 64829), (64848, 64911), (64914, 64967), (65008, 65019), (65136, 65140), (65142,
   65276), (65296, 65305), (65313, 65338), (65345, 65370), (65382, 65470), (65474, 65479),
   (65482, 65487), (65490, 65495), (65498, 65500), (65536, 65547), (65549, 65574), (65576,
   65594), (65596, 65597), (65599, 65613), (65616, 65629), (65664, 65786), (65799, 65843),
   (65856, 65912), (65930, 65931), (66176, 66204), (66208, 66256), (66273, 66299), (66304,
   66339), (66349, 66378), (66384, 66421), (66432, 66461), (66464, 66499), (66504, 66511),
   (66513, 66517), (66560, 66717), (66720, 66729), (66736, 66771), (66776, 66811), (66816,
   66855), (66864, 66915), (66928, 66938), (66940, 66954), (66956, 66962), (66964, 66965),
   (66967, 66977), (66979, 66993), (66995, 67001), (67003, 67004), (67072, 67382), (67392,
   67413), (67424, 67431), (67456, 67461), (67463, 67504), (67506, 67514), (67584, 67589),
   (67592, 67592), (67594, 67637), (67639, 67640), (67644, 67644), (67647, 67669), (67672,
   67702), (67705, 67742), (67751, 67759), (67808, 67826), (67828, 67829), (67835, 67867),
   (67872, 67897), (67968, 68023), (68028, 68047), (68050, 68096), (68112, 68115), (68117,
   68119), (68121, 68149), (68160, 68168), (68192, 68222), (68224, 68255), (68288, 68295),
   (68297, 68324), (68331, 68335), (68352, 68405), (68416, 68437), (68440, 68466), (68472,
   68497), (68521, 68527), (68608, 68680), (68736, 68786), (68800, 68850), (68858, 68899),
   (68912, 68921), (69216, 69246), (69248, 69289), (69296, 69297), (69376, 69415), (69424,
   69445), (69457, 69460), (69488, 69505), (69552, 69579), (69600, 69622), (69635, 69687),
   (69714, 69743), (69745, 69746), (69749, 69749), (69763, 69807), (69840, 69864), (69872,
   69881), (69891, 69926), (69942, 69951), (69956, 69956), (69959, 69959), (69968, 70002),
   (70006, 70006), (70019, 70066), (70081, 70084), (70096, 70106), (70108, 70108), (70113,
   70132), (70144, 70161), (70163, 70187), (70272, 70278), (70280, 70280), (70282, 70285),
   (70287, 70301), (70303, 70312), (70320, 70366), (70384, 70393), (70405, 70412), (70415,
   70416), (70419, 70440), (70442, 70448), (70450, 70451), (70453, 70457), (70461, 70461),
   (70480, 70480), (70493, 70497), (70656, 70708), (70727, 70730), (70736, 70745), (70751,
   70753), (70784, 70831), (70852, 70853), (70855, 70855), (70864, 70873), (71040, 71086),
   (71128, 71131), (71168, 71215), (71236, 71236), (71248, 71257), (71296, 71338), (71352,
   71352), (71360, 71369), (71424, 71450), (71472, 71483), (71488, 71494), (71680, 71723),
   (71840, 71922), (71935, 71942), (71945, 71945), (71948, 71955), (71957, 71958), (71960,
   71983), (71999, 71999), (72001, 72001), (72016, 72025), (72096, 72103), (72106, 72144),
   (72161, 72161), (72163, 72163), (72192, 72192), (72203, 72242), (72250, 72250), (72272,
   72272), (72284, 72329), (72349, 72349), (72368, 72440), (72704, 72712), (72714, 72750),
   (72768, 72768), (72784, 72812), (72818, 72847), (72960, 72966), (72968, 72969), (72971,
   73008), (73030, 73030), (73040, 73049), (73056, 73061), (73063, 73064), (73066, 73097),
   (73112, 73112), (73120, 73129), (73440, 73458), (73648, 73648), (73664, 73684), (73728,
   74649), (74752, 74862), (74880, 75075), (77712, 77808), (77824, 78894), (82944, 83526),
   (92160, 92728), (92736, 92766), (92768, 92777), (92784, 92862), (92864, 92873), (92880,
   92909), (92928, 92975), (92992, 92995), (93008, 93017), (93019, 93025), (93027, 93047),
   (93053, 93071), (93760, 93846), (93952, 94026), (94032, 94032), (94099, 94111), (94176,
   94177), (94179, 94179), (94208, 100343), (100352, 101589), (101632, 101640), (110576,
   110579), (110581, 110587), (110589, 110590), (110592, 110882), (110928, 110930), (110948,
   110951), (110960, 111355), (113664, 113770), (113776, 113788), (113792, 113800), (113808,
   113817), (119520, 119539), (119648, 119672), (119808, 119892), (119894, 119964), (119966,
   119967), (119970, 119970), (119973, 119974), (119977, 119980), (119982, 119993), (119995,
   119995), (119997, 120003), (120005, 120069), (120071, 120074), (120077, 120084), (120086,
   120092), (120094, 120121), (120123, 120126), (120128, 120132), (120134, 120134), (120138,
   120144), (120146, 120485), (120488, 120512), (120514, 120538), (120540, 120570), (120572,
   120596), (120598, 120628), (120630, 120654), (120656, 120686), (120688, 120712), (120714,
   120744), (120746, 120770), (120772, 120779), (120782, 120831), (122624, 122654), (123136,
   123180), (123191, 123197), (123200, 123209), (123214, 123214), (123536, 123565), (123584,
   123627), (123632, 123641), (124896, 124902), (124904, 124907), (124909, 124910), (124912,
   124926), (124928, 125124), (125127, 125135), (125184, 125251), (125259, 125259), (125264,
   125273), (126065, 126123), (126125, 126127), (126129, 126132), (126209, 126253), (126255,
   126269), (126464, 126467), (126469, 126495), (126497, 126498), (126500, 126500), (126503,
   126503), (126505, 126514), (126516, 126519), (126521, 126521), (126523, 126523), (126530,
   126530), (126535, 126535), (126537, 126537), (126539, 126539), (126541, 126543), (126545,
   126546), (126548, 126548), (126551, 126551), (126553, 126553), (126555, 126555), (126557,
   126557), (126559, 126559), (126561, 126562), (126564, 126564), (126567, 126570), (126572,
   126578), (126580, 126583), (126585, 126588), (126590, 126590), (126592, 126601), (126603,
   126619), (126625, 126627), (126629, 126633), (126635, 126651), (127232, 127244), (130032,
   130041), (131072, 173791), (173824, 177976), (177984, 178205), (178208, 183969), (183984,
   191456), (194560, 195101), (196608, 201546)
  ]"

definition py_isalnum :: "nat \<Rightarrow> bool" where
  "py_isalnum c = in_ranges c alnum_ranges"

text \<open>
  \<^verbatim>\<open>str.isdecimal\<close> of one character, the class \<^verbatim>\<open>\d\<close> of a \<^verbatim>\<open>str\<close> pattern
  (general category Nd of the same database).
\<close>

definition decimal_ranges :: "(nat \<times> nat) list" where
  "decimal_ranges =
  [
   (48, 57), (1632, 1641), (1776, 1785), (1984, 1993), (2406, 2415), (2534, 2543), (2662,
   2671), (2790, 2799), (2918, 2927), (3046, 3055), (3174, 3183), (3302, 3311), (3430, 3439),
   (3558, 3567), (3664, 3673), (3792, 3801), (3872, 3881), (4160, 4169), (4240, 4249), (6112,
   6121), (6160, 6169), (6470, 6479), (6608, 6617), (6784, 6793), (6800, 6809), (6992, 7001),
   (7088, 7097), (7232, 7241), (7248, 7257), (42528, 42537), (43216, 43225), (43264, 43273),
   (43472, 43481), (43504, 43513), (43600, 43609), (44016, 44025), (65296, 65305), (66720,
   66729), (68912, 68921), (69734, 69743), (69872, 69881), (69942, 69951), (70096, 70105),
   (70384, 70393), (70736, 70745), (70864, 70873), (71248, 71257), (71360, 71369), (71472,
   71481), (71904, 71913), (72016, 72025), (72784, 72793), (73040, 73049), (73120, 73129),
   (92768, 92777), (92864, 92873), (93008, 93017), (120782, 120831), (123200, 123209), (123632,
   123641), (125264, 125273), (130032, 130041)
  ]"

definition py_isdecimal :: "nat \<Rightarrow> bool" where
  "py_isdecimal c = in_ranges c decimal_ranges"

definition re_word :: "nat \<Rightarrow> bool" where
  "re_word c = (py_isalnum c \<or> c = 95)"

text \<open>\<^verbatim>\<open>str.strip()\<close>: leading and trailing whitespace removed.\<close>

definition py_strip :: "ustring \<Rightarrow> ustring" where
  "py_strip s = rev (dropWhile py_isspace (rev (dropWhile py_isspace s)))"

subsection \<open>The business-name clean-up of \<^verbatim>\<open>extract_metadata\<close>\<close>

text \<open>
  \<^verbatim>\<open>re.sub(r'[^\w\s\-\&]', '', name).strip()\<close>: every character outside the class is
  replaced by the empty string, then the result is stripped. Hyphen is code point 45,
  ampersand 38.
\<close>

definition name_char :: "nat \<Rightarrow> bool" where
  "name_char c = (re_word c \<or> py_isspace c \<or> c = 45 \<or> c = 38)"

definition clean_business_name :: "ustring \<Rightarrow> ustring" where
  "clean_business_name name = py_strip (filter name_char name)"

subsection \<open>Lower-casing, prefixes and the substring test\<close>

text \<open>
  \<^verbatim>\<open>str.lower()\<close>. The program compares a lowered string with ASCII literals only
  (substring tests and dictionary keys), so what matters is which characters lower to
  ASCII ones: the letters A to Z, LATIN CAPITAL LETTER I WITH DOT ABOVE (U+0130, which
  lowers to \<^verbatim>\<open>i\<close> followed by U+0307) and KELVIN SIGN (U+212A, which lowers to
  \<^verbatim>\<open>k\<close>). Every other character lowers to a non-empty string of non-ASCII
  characters; the model keeps it as it is.
\<close>

definition lower_char :: "nat \<Rightarrow> ustring" where
  "lower_char c =
     (if 65 \<le> c \<and> c \<le> 90 then [c + 32]
      else if c = 304 then [105, 775]
      else if c = 8490 then [107]
      else [c])"

definition py_lower :: "ustring \<Rightarrow> ustring" where
  "py_lower s = concat (map lower_char s)"

text \<open>\<^verbatim>\<open>s.startswith(p)\<close> and \<^verbatim>\<open>sub in s\<close>.\<close>

fun startswith :: "ustring \<Rightarrow> ustring \<Rightarrow> bool" where
  "startswith s [] = True"
| "startswith [] (p # ps) = False"
| "startswith (c # cs) (p # ps) = (c = p \<and> startswith cs ps)"

fun py_in :: "ustring \<Rightarrow> ustring \<Rightarrow> bool" where
  "py_in sub [] = (sub = [])"
| "py_in sub (c # cs) = (startswith (c # cs) sub \<or> py_in sub cs)"

text \<open>
  \<^verbatim>\<open>str.capitalize()\<close>, applied by the program to the nine ASCII keys of its industry
  table only: first character upper-cased, the rest lower-cased.
\<close>

definition capitalize :: "ustring \<Rightarrow> ustring" where
  "capitalize s =
     (case s of [] \<Rightarrow> []
      | c # cs \<Rightarrow> (if 97 \<le> c \<and> c \<le> 122 then c - 32 else c) # py_lower cs)"

text \<open>\<^verbatim>\<open>sep.join(parts)\<close> on strings.\<close>

fun join :: "ustring \<Rightarrow> ustring list \<Rightarrow> ustring" where
  "join sep [] = []"
| "join sep [x] = x"
| "join sep (x # y # ys) = x @ sep @ join sep (y # ys)"

section \<open>Decoded JSON, Python truth values, dictionaries\<close>

text \<open>
  What \<^verbatim>\<open>json.loads\<close> returns, which is also the \<^verbatim>\<open>Any\<close> of the candidate
  dictionaries. A number is a rational (every finite float is one); the program only
  ever tests a number for truth. An object is an association list whose first binding
  of a key is the dictionary's value for it.
\<close>

datatype json =
    JNull
  | JBool bool
  | JNum rat
  | JStr ustring
  | JArr "json list"
  | JObj "(ustring \<times> json) list"

type_synonym dict = "(ustring \<times> json) list"

datatype exn = TypeError | AttributeError | ValidationError

fun truthy :: "json \<Rightarrow> bool" where
  "truthy JNull = False"
| "truthy (JBool b) = b"
| "truthy (JNum n) = (n \<noteq> 0)"
| "truthy (JStr s) = (s \<noteq> [])"
| "truthy (JArr xs) = (xs \<noteq> [])"
| "truthy (JObj kvs) = (kvs \<noteq> [])"

text \<open>\<^verbatim>\<open>a or b\<close> on values.\<close>

definition py_or :: "json \<Rightarrow> json \<Rightarrow> json" where
  "py_or a b = (if truthy a then a else b)"

text \<open>\<^verbatim>\<open>d.get(k)\<close>, \<^verbatim>\<open>d[k] = v\<close> and \<^verbatim>\<open>d.update(e)\<close>.\<close>

definition dict_get :: "dict \<Rightarrow> ustring \<Rightarrow> json" where
  "dict_get d k = (case map_of d k of None \<Rightarrow> JNull | Some v \<Rightarrow> v)"

fun dict_set :: "dict \<Rightarrow> ustring \<Rightarrow> json \<Rightarrow> dict" where
  "dict_set [] k v = [(k, v)]"
| "dict_set ((k', v') # d) k v =
     (if k' = k then (k, v) # d else (k', v') # dict_set d k v)"

fun dict_update :: "dict \<Rightarrow> dict \<Rightarrow> dict" where
  "dict_update d [] = d"
| "dict_update d ((k, v) # e) = dict_update (dict_set d k v) e"

text \<open>Sequencing of steps that may raise.\<close>

definition bind_exn :: "exn + 'a \<Rightarrow> ('a \<Rightarrow> exn + 'b) \<Rightarrow> exn + 'b" where
  "bind_exn x f = (case x of Inl e \<Rightarrow> Inl e | Inr a \<Rightarrow> f a)"

section \<open>The parsed document\<close>

text \<open>
  The document is the sequence of its elements in document order, which is the order
  in which \<^verbatim>\<open>find_all\<close> reports them and \<^verbatim>\<open>find\<close> takes the first. An element
  has its tag name, its attributes, its \<^verbatim>\<open>.string\<close> (absent when the element has no
  single text child, as for an empty \<^verbatim>\<open>script\<close>) and its \<^verbatim>\<open>get_text()\<close>. The
  program reads \<^verbatim>\<open>.string\<close> only to hand it to \<^verbatim>\<open>json.loads\<close>, so a text is
  represented by what the decoder makes of it: a \<^verbatim>\<open>JSONDecodeError\<close>, or a value.
\<close>

datatype json_text = Malformed | Encodes json

record element =
  el_name :: ustring
  el_attrs :: "(ustring \<times> ustring) list"
  el_string :: "json_text option"
  el_text :: ustring

type_synonym soup = "element list"

text \<open>\<^verbatim>\<open>tag.get(k)\<close>.\<close>

definition attr :: "element \<Rightarrow> ustring \<Rightarrow> ustring option" where
  "attr e k = map_of (el_attrs e) k"

definition find_all :: "soup \<Rightarrow> ustring \<Rightarrow> (element \<Rightarrow> bool) \<Rightarrow> element list" where
  "find_all sp tag P = filter (\<lambda>e. el_name e = tag \<and> P e) sp"

definition find_first :: "soup \<Rightarrow> ustring \<Rightarrow> (element \<Rightarrow> bool) \<Rightarrow> element option" where
  "find_first sp tag P = (case find_all sp tag P of [] \<Rightarrow> None | e # _ \<Rightarrow> Some e)"

section \<open>Structured-data extractor\<close>

text \<open>
  \<^verbatim>\<open>_extract_address\<close>. A falsy argument gives \<^verbatim>\<open>None\<close>; a string is returned; of a
  dictionary the truthy ones of the five components are joined, and \<^verbatim>\<open>str.join\<close>
  raises \<^verbatim>\<open>TypeError\<close> on a component that is not a string; anything else gives
  \<^verbatim>\<open>None\<close>.
\<close>

definition address_keys :: "ustring list" where
  "address_keys =
     [u ''streetAddress'', u ''addressLocality'', u ''addressRegion'',
      u ''postalCode'', u ''addressCountry'']"

fun str_items :: "json list \<Rightarrow> exn + ustring list" where
  "str_items [] = Inr []"
| "str_items (JStr s # ps) = bind_exn (str_items ps) (\<lambda>ss. Inr (s # ss))"
| "str_items (p # ps) = Inl TypeError"

definition extract_address :: "json \<Rightarrow> exn + json" where
  "extract_address a =
     (if \<not> truthy a then Inr JNull
      else case a of
        JStr s \<Rightarrow> Inr (JStr s)
      | JObj d \<Rightarrow>
          bind_exn (str_items (filter truthy (map (dict_get d) address_keys)))
            (\<lambda>parts. Inr (JStr (join (u '', '') parts)))
      | _ \<Rightarrow> Inr JNull)"

text \<open>
  \<^verbatim>\<open>_extract_schema_item\<close>. \<^verbatim>\<open>item.get\<close> on a value that is not a dictionary and
  \<^verbatim>\<open>.lower()\<close> on a type that is not a string raise \<^verbatim>\<open>AttributeError\<close>.
\<close>

definition extract_schema_item :: "json \<Rightarrow> exn + dict" where
  "extract_schema_item item =
     (case item of
        JObj d \<Rightarrow>
          (case (case map_of d (u ''@type'') of None \<Rightarrow> JStr [] | Some t \<Rightarrow> t) of
             JStr t \<Rightarrow>
               (let item_type = py_lower t in
                if py_in (u ''localbusiness'') item_type \<or> py_in (u ''organization'') item_type
                     \<or> py_in (u ''business'') item_type
                then bind_exn (extract_address (dict_get d (u ''address'')))
                  (\<lambda>a. Inr
                    [(u ''businessName'', py_or (dict_get d (u ''name'')) (dict_get d (u ''legalName''))),
                     (u ''description'', dict_get d (u ''description'')),
                     (u ''address'', a),
                     (u ''industry'', py_or (dict_get d (u ''category'')) (dict_get d (u ''keywords'')))])
                else if py_in (u ''person'') item_type
                then Inr
                    [(u ''businessName'', dict_get d (u ''name'')),
                     (u ''description'', dict_get d (u ''description'')),
                     (u ''industry'', py_or (dict_get d (u ''jobTitle'')) (dict_get d (u ''description'')))]
                else Inr [])
           | _ \<Rightarrow> Inl AttributeError)
      | _ \<Rightarrow> Inl AttributeError)"

text \<open>
  The inner loop of \<^verbatim>\<open>extract_from_schema_org\<close> over the items of a decoded list.
  \<^verbatim>\<open>schema_data\<close> is updated in place, so what the items before a raising one wrote
  stays; the result is the dictionary and the exception that ended the loop, if any.
\<close>

fun update_items :: "dict \<Rightarrow> json list \<Rightarrow> dict \<times> exn option" where
  "update_items schema_data [] = (schema_data, None)"
| "update_items schema_data (item # items) =
     (case extract_schema_item item of
        Inl e \<Rightarrow> (schema_data, Some e)
      | Inr r \<Rightarrow> update_items (dict_update schema_data r) items)"

text \<open>
  The body of the \<^verbatim>\<open>try\<close> for one script: \<^verbatim>\<open>json.loads(script.string)\<close> raises
  \<^verbatim>\<open>TypeError\<close> when \<^verbatim>\<open>script.string\<close> is \<^verbatim>\<open>None\<close>, and
  \<^verbatim>\<open>JSONDecodeError\<close> on a text that does not decode.
\<close>

datatype outcome = Raised exn | DecodeError | Done

definition try_script :: "dict \<Rightarrow> element \<Rightarrow> dict \<times> outcome" where
  "try_script schema_data script =
     (case el_string script of
        None \<Rightarrow> (schema_data, Raised TypeError)
      | Some Malformed \<Rightarrow> (schema_data, DecodeError)
      | Some (Encodes data) \<Rightarrow>
          (case data of
             JArr items \<Rightarrow>
               (case update_items schema_data items of
                  (sd, None) \<Rightarrow> (sd, Done)
                | (sd, Some e) \<Rightarrow> (sd, Raised e))
           | JObj d \<Rightarrow>
               (case extract_schema_item data of
                  Inl e \<Rightarrow> (schema_data, Raised e)
                | Inr r \<Rightarrow> (dict_update schema_data r, Done))
           | _ \<Rightarrow> (schema_data, Done)))"

text \<open>
  The loop over the scripts with its handler:
  \<^verbatim>\<open>except (json.JSONDecodeError, AttributeError): continue\<close>. Any other exception
  leaves the function.
\<close>

fun scripts_loop :: "dict \<Rightarrow> element list \<Rightarrow> exn + dict" where
  "scripts_loop schema_data [] = Inr schema_data"
| "scripts_loop schema_data (script # scripts) =
     (case try_script schema_data script of
        (sd, Done) \<Rightarrow> scripts_loop sd scripts
      | (sd, DecodeError) \<Rightarrow> scripts_loop sd scripts
      | (sd, Raised AttributeError) \<Rightarrow> scripts_loop sd scripts
      | (sd, Raised e) \<Rightarrow> Inl e)"

definition ld_json :: "element \<Rightarrow> bool" where
  "ld_json e = (attr e (u ''type'') = Some (u ''application/ld+json''))"

definition extract_from_schema_org :: "soup \<Rightarrow> exn + dict" where
  "extract_from_schema_org sp = scripts_loop [] (find_all sp (u ''script'') ld_json)"

section \<open>Social-preview extractors\<close>

text \<open>
  The body of both loops: the lowered key is looked up in the mapping, and a non-empty
  content is stored unless the field already holds a truthy value.
\<close>

definition assign_first :: "(ustring \<times> ustring) list \<Rightarrow> ustring \<Rightarrow> element \<Rightarrow> dict \<Rightarrow> dict" where
  "assign_first meta_mapping key meta acc =
     (let prop = py_lower (case attr meta key of None \<Rightarrow> [] | Some p \<Rightarrow> p) in
      case (map_of meta_mapping prop, attr meta (u ''content'')) of
        (Some field, Some content) \<Rightarrow>
          if content \<noteq> [] \<and> \<not> truthy (dict_get acc field)
          then dict_set acc field (JStr content) else acc
      | _ \<Rightarrow> acc)"

definition og_mapping :: "(ustring \<times> ustring) list" where
  "og_mapping =
     [(u ''og:title'', u ''businessName''),
      (u ''og:site_name'', u ''businessName''),
      (u ''og:description'', u ''description''),
      (u ''og:image'', u ''logo''),
      (u ''og:url'', u ''website''),
      (u ''og:type'', u ''industry'')]"

text \<open>\<^verbatim>\<open>soup.find_all('meta', property=True)\<close>: the \<^verbatim>\<open>meta\<close> elements that have the attribute.\<close>

definition extract_from_open_graph :: "soup \<Rightarrow> dict" where
  "extract_from_open_graph sp =
     fold (assign_first og_mapping (u ''property''))
       (find_all sp (u ''meta'') (\<lambda>e. attr e (u ''property'') \<noteq> None)) []"

definition twitter_mapping :: "(ustring \<times> ustring) list" where
  "twitter_mapping =
     [(u ''twitter:title'', u ''businessName''),
      (u ''twitter:description'', u ''description''),
      (u ''twitter:image'', u ''logo'')]"

text \<open>
  \<^verbatim>\<open>re.compile(r'^twitter:', re.I)\<close> searched in the \<^verbatim>\<open>name\<close> attribute. Without the
  multi-line flag the anchor is the start of the string. Case-insensitively a letter
  matches its two ASCII forms, and \<^verbatim>\<open>i\<close> also U+0130 and U+0131.
\<close>

definition ci_char :: "nat \<Rightarrow> nat \<Rightarrow> bool" where
  "ci_char p c =
     (c = p \<or> (97 \<le> p \<and> p \<le> 122 \<and> c + 32 = p) \<or> (p = 105 \<and> (c = 304 \<or> c = 305)))"

fun ci_startswith :: "ustring \<Rightarrow> ustring \<Rightarrow> bool" where
  "ci_startswith s [] = True"
| "ci_startswith [] (p # ps) = False"
| "ci_startswith (c # cs) (p # ps) = (ci_char p c \<and> ci_startswith cs ps)"

definition twitter_name :: "element \<Rightarrow> bool" where
  "twitter_name e =
     (case attr e (u ''name'') of None \<Rightarrow> False | Some n \<Rightarrow> ci_startswith n (u ''twitter:''))"

definition extract_from_twitter_card :: "soup \<Rightarrow> dict" where
  "extract_from_twitter_card sp =
     fold (assign_first twitter_mapping (u ''name''))
       (find_all sp (u ''meta'') twitter_name) []"

section \<open>Generic-HTML extractor\<close>

definition opt_str :: "ustring option \<Rightarrow> json" where
  "opt_str x = (case x of None \<Rightarrow> JNull | Some s \<Rightarrow> JStr s)"

definition extract_from_html :: "soup \<Rightarrow> ustring \<Rightarrow> dict" where
  "extract_from_html sp url =
     (let d0 = (case find_first sp (u ''title'') (\<lambda>e. True) of
                  None \<Rightarrow> []
                | Some title \<Rightarrow> dict_set [] (u ''businessName'') (JStr (py_strip (el_text title))));
          d1 = (case find_first sp (u ''meta'') (\<lambda>e. attr e (u ''name'') = Some (u ''description'')) of
                  None \<Rightarrow> d0
                | Some meta_desc \<Rightarrow>
                    dict_set d0 (u ''description'') (opt_str (attr meta_desc (u ''content''))))
      in case find_first sp (u ''h1'') (\<lambda>e. True) of
           None \<Rightarrow> d1
         | Some h1 \<Rightarrow> dict_set d1 (u ''businessName'') (JStr (py_strip (el_text h1))))"

section \<open>Industry classifier\<close>

definition industry_patterns :: "(ustring \<times> ustring list) list" where
  "industry_patterns =
     [(u ''salon'', [u ''salon'', u ''beauty'', u ''hair'', u ''nail'', u ''spa'', u ''barber'']),
      (u ''restaurant'', [u ''restaurant'', u ''cafe'', u ''diner'', u ''bistro'', u ''eatery'']),
      (u ''retail'', [u ''shop'', u ''store'', u ''boutique'', u ''market'', u ''retail'']),
      (u ''fitness'', [u ''fitness'', u ''gym'', u ''yoga'', u ''pilates'', u ''crossfit'']),
      (u ''professional'', [u ''law'', u ''legal'', u ''accounting'', u ''consulting'', u ''firm'']),
      (u ''creative'', [u ''design'', u ''creative'', u ''agency'', u ''studio'', u ''art'']),
      (u ''technology'', [u ''tech'', u ''software'', u ''app'', u ''digital'', u ''startup'']),
      (u ''healthcare'', [u ''medical'', u ''dental'', u ''health'', u ''clinic'', u ''pharmacy'']),
      (u ''education'', [u ''school'', u ''education'', u ''tutor'', u ''learn'', u ''academy''])]"

fun first_industry :: "ustring \<Rightarrow> (ustring \<times> ustring list) list \<Rightarrow> ustring option" where
  "first_industry url_lower [] = None"
| "first_industry url_lower ((industry, patterns) # rest) =
     (if list_ex (\<lambda>pattern. py_in pattern url_lower) patterns
      then Some (capitalize industry)
      else first_industry url_lower rest)"

definition detect_industry_from_url :: "ustring \<Rightarrow> soup \<Rightarrow> ustring option" where
  "detect_industry_from_url url sp = first_industry (py_lower url) industry_patterns"

section \<open>Address sniffer\<close>

text \<open>
  The pattern of \<^verbatim>\<open>extract_address_from_text\<close> uses character classes, literals,
  sequence, alternation, greedy repetition of a class and greedy optional groups. A
  matcher maps a text to the rests that a backtracking matcher leaves, in the order in
  which it tries them: a greedy repetition offers the longest run first, an alternation
  its branches from left to right, an optional group the group before its absence. The
  first rest belongs to the match that \<^verbatim>\<open>re\<close> reports.
\<close>

type_synonym matcher = "ustring \<Rightarrow> ustring list"

definition m_class :: "(nat \<Rightarrow> bool) \<Rightarrow> matcher" where
  "m_class P s = (case s of [] \<Rightarrow> [] | c # cs \<Rightarrow> if P c then [cs] else [])"

definition m_lit :: "ustring \<Rightarrow> matcher" where
  "m_lit w s = (if startswith s w then [drop (length w) s] else [])"

text \<open>At least \<open>n\<close> characters of a class, greedy.\<close>

definition m_many :: "nat \<Rightarrow> (nat \<Rightarrow> bool) \<Rightarrow> matcher" where
  "m_many n P s = map (\<lambda>k. drop k s) (rev [n ..< Suc (length (takeWhile P s))])"

text \<open>Exactly \<open>n\<close> characters of a class.\<close>

definition m_count :: "nat \<Rightarrow> (nat \<Rightarrow> bool) \<Rightarrow> matcher" where
  "m_count n P s = (if n \<le> length (takeWhile P (take n s)) then [drop n s] else [])"

definition m_seq :: "matcher \<Rightarrow> matcher \<Rightarrow> matcher" where
  "m_seq a b s = concat (map b (a s))"

definition m_opt :: "matcher \<Rightarrow> matcher" where
  "m_opt a s = a s @ [s]"

fun m_alts :: "matcher list \<Rightarrow> matcher" where
  "m_alts [] s = []"
| "m_alts (a # as) s = a s @ m_alts as s"

fun m_seqs :: "matcher list \<Rightarrow> matcher" where
  "m_seqs [] s = [s]"
| "m_seqs (a # as) s = m_seq a (m_seqs as) s"

definition upper_az :: "nat \<Rightarrow> bool" where
  "upper_az c = (65 \<le> c \<and> c \<le> 90)"

definition lower_az :: "nat \<Rightarrow> bool" where
  "lower_az c = (97 \<le> c \<and> c \<le> 122)"

definition street_types :: "ustring list" where
  "street_types =
     [u ''Street'', u ''St'', u ''Ave'', u ''Avenue'', u ''Blvd'', u ''Boulevard'',
      u ''Road'', u ''Rd'', u ''Lane'', u ''Ln'', u ''Drive'', u ''Dr'']"

definition address_pattern :: matcher where
  "address_pattern =
     m_seqs
       [m_many 1 py_isdecimal,
        m_many 1 py_isspace,
        m_class upper_az,
        m_many 1 lower_az,
        m_many 1 py_isspace,
        m_alts (map m_lit street_types),
        m_many 1 (\<lambda>c. c = 44 \<or> py_isspace c),
        m_class upper_az,
        m_many 1 lower_az,
        m_opt (m_seqs [m_lit (u '',''), m_many 0 py_isspace, m_count 2 upper_az]),
        m_opt (m_seqs [m_many 0 py_isspace, m_count 5 py_isdecimal])]"

definition match_here :: "matcher \<Rightarrow> ustring \<Rightarrow> ustring option" where
  "match_here m s =
     (case m s of [] \<Rightarrow> None | r # _ \<Rightarrow> Some (take (length s - length r) s))"

text \<open>
  The first element of \<^verbatim>\<open>re.findall(pattern, text)\<close>, if there is one: the match at
  the leftmost position that has a match.
\<close>

fun first_match :: "matcher \<Rightarrow> ustring \<Rightarrow> ustring option" where
  "first_match m [] = match_here m []"
| "first_match m (c # cs) =
     (case match_here m (c # cs) of Some t \<Rightarrow> Some t | None \<Rightarrow> first_match m cs)"

definition extract_address_from_text :: "soup \<Rightarrow> ustring option" where
  "extract_address_from_text sp =
     (case find_first sp (u ''footer'') (\<lambda>e. True) of
        None \<Rightarrow> None
      | Some footer \<Rightarrow> first_match address_pattern (el_text footer))"

section \<open>Reconciliation\<close>

text \<open>
  The \<^verbatim>\<open>merged_data\<close> dictionary of \<^verbatim>\<open>extract_metadata\<close>, before the name is cleaned.
\<close>

definition merge_data ::
  "dict \<Rightarrow> dict \<Rightarrow> dict \<Rightarrow> dict \<Rightarrow> ustring option \<Rightarrow> ustring option \<Rightarrow> ustring \<Rightarrow> dict" where
  "merge_data schema_data og_data twitter_data html_data detected_industry detected_address url =
     [(u ''businessName'',
         py_or (py_or (py_or (dict_get schema_data (u ''businessName''))
                             (dict_get og_data (u ''businessName'')))
                      (dict_get twitter_data (u ''businessName'')))
               (dict_get html_data (u ''businessName''))),
      (u ''description'',
         py_or (py_or (py_or (dict_get schema_data (u ''description''))
                             (dict_get og_data (u ''description'')))
                      (dict_get twitter_data (u ''description'')))
               (dict_get html_data (u ''description''))),
      (u ''industry'',
         py_or (py_or (dict_get schema_data (u ''industry''))
                      (dict_get og_data (u ''industry'')))
               (opt_str detected_industry)),
      (u ''address'',
         py_or (dict_get schema_data (u ''address'')) (opt_str detected_address)),
      (u ''website'', py_or (dict_get og_data (u ''website'')) (JStr url)),
      (u ''logo'',
         py_or (py_or (dict_get schema_data (u ''logo''))
                      (dict_get og_data (u ''logo'')))
               (dict_get twitter_data (u ''logo''))),
      (u ''rawMetadata'',
         JObj [(u ''schema'', JObj schema_data),
               (u ''openGraph'', JObj og_data),
               (u ''twitter'', JObj twitter_data),
               (u ''html'', JObj html_data),
               (u ''detectedIndustry'', opt_str detected_industry)])]"

text \<open>
  The clean-up step: a truthy name is replaced by its cleaned form; \<^verbatim>\<open>re.sub\<close>
  raises \<^verbatim>\<open>TypeError\<close> on a value that is not a string.
\<close>

definition clean_up :: "dict \<Rightarrow> exn + dict" where
  "clean_up merged_data =
     (if truthy (dict_get merged_data (u ''businessName''))
      then (case dict_get merged_data (u ''businessName'') of
              JStr s \<Rightarrow> Inr (dict_set merged_data (u ''businessName'') (JStr (clean_business_name s)))
            | _ \<Rightarrow> Inl TypeError)
      else Inr merged_data)"

text \<open>
  \<^verbatim>\<open>BusinessMetadata\<close>, and its construction from keyword arguments. The validation of
  an \<^verbatim>\<open>Optional[str]\<close> field accepts \<^verbatim>\<open>None\<close> and strings as they are; every other
  value is rejected here, as pydantic 2 does (pydantic 1 would turn a number into its
  decimal text). A field that is not passed keeps its default \<^verbatim>\<open>None\<close>.
\<close>

record BusinessMetadata =
  businessName :: "ustring option"
  description :: "ustring option"
  industry :: "ustring option"
  address :: "ustring option"
  website :: "ustring option"
  logo :: "ustring option"
  rawMetadata :: "dict option"
  requiresAuth :: "bool option"
  platform :: "ustring option"
  authUrl :: "ustring option"

definition optional_str :: "json \<Rightarrow> exn + ustring option" where
  "optional_str v =
     (case v of JNull \<Rightarrow> Inr None | JStr s \<Rightarrow> Inr (Some s) | _ \<Rightarrow> Inl ValidationError)"

definition optional_dict :: "json \<Rightarrow> exn + dict option" where
  "optional_dict v =
     (case v of JNull \<Rightarrow> Inr None | JObj d \<Rightarrow> Inr (Some d) | _ \<Rightarrow> Inl ValidationError)"

definition make_BusinessMetadata :: "dict \<Rightarrow> exn + BusinessMetadata" where
  "make_BusinessMetadata kw =
     bind_exn (optional_str (dict_get kw (u ''businessName''))) (\<lambda>n.
     bind_exn (optional_str (dict_get kw (u ''description''))) (\<lambda>d.
     bind_exn (optional_str (dict_get kw (u ''industry''))) (\<lambda>i.
     bind_exn (optional_str (dict_get kw (u ''address''))) (\<lambda>a.
     bind_exn (optional_str (dict_get kw (u ''website''))) (\<lambda>w.
     bind_exn (optional_str (dict_get kw (u ''logo''))) (\<lambda>l.
     bind_exn (optional_dict (dict_get kw (u ''rawMetadata''))) (\<lambda>r.
       Inr \<lparr>businessName = n, description = d, industry = i, address = a, website = w,
            logo = l, rawMetadata = r, requiresAuth = None, platform = None,
            authUrl = None\<rparr>)))))))"

text \<open>
  The part of \<^verbatim>\<open>extract_metadata\<close> that follows the parsing of the page: the six
  extractions, the merge, the clean-up and the construction of the record.
\<close>

definition reconcile :: "soup \<Rightarrow> ustring \<Rightarrow> exn + BusinessMetadata" where
  "reconcile sp url =
     bind_exn (extract_from_schema_org sp) (\<lambda>schema_data.
       let og_data = extract_from_open_graph sp;
           twitter_data = extract_from_twitter_card sp;
           html_data = extract_from_html sp url;
           detected_industry = detect_industry_from_url url sp;
           detected_address = extract_address_from_text sp
       in bind_exn
            (clean_up (merge_data schema_data og_data twitter_data html_data
                         detected_industry detected_address url))
            make_BusinessMetadata)"

text \<open>
  The endpoint. What the HTTP client and the HTML parser do with a URL is a parameter:
  a timeout, an error status, another failure, or the parsed page. An
  \<^verbatim>\<open>HTTPException\<close> is represented by its status code.
\<close>

datatype fetched = TimeoutException | HTTPStatusError nat | RequestFailed | Page soup

datatype http_error = HTTPException nat

definition instagram_record :: "ustring \<Rightarrow> BusinessMetadata" where
  "instagram_record url =
     \<lparr>businessName = None, description = None, industry = Some (u ''Social Media''),
      address = None, website = Some url, logo = None,
      rawMetadata = Some [(u ''source'', JStr (u ''instagram'')), (u ''oauthAvailable'', JBool True)],
      requiresAuth = None, platform = None, authUrl = None\<rparr>"

definition extract_metadata :: "(ustring \<Rightarrow> fetched) \<Rightarrow> ustring \<Rightarrow> http_error + BusinessMetadata" where
  "extract_metadata fetch url =
     (if \<not> (startswith url (u ''http://'') \<or> startswith url (u ''https://''))
      then Inl (HTTPException 400)
      else if py_in (u ''instagram.com'') (py_lower url)
      then Inr (instagram_record url)
      else case fetch url of
             TimeoutException \<Rightarrow> Inl (HTTPException 408)
           | HTTPStatusError code \<Rightarrow> Inl (HTTPException code)
           | RequestFailed \<Rightarrow> Inl (HTTPException 500)
           | Page sp \<Rightarrow>
               (case reconcile sp url of
                  Inl e \<Rightarrow> Inl (HTTPException 500)
                | Inr r \<Rightarrow> Inr r))"

section \<open>Notions used in the statements\<close>


text \<open>
  The \<^verbatim>\<open>merged_data\<close> dictionary that \<^verbatim>\<open>extract_metadata\<close> builds for a document
  and a URL, before the clean-up, when the structured-data extractor has returned
  \<open>schema_data\<close>.
\<close>

definition merged_data :: "soup \<Rightarrow> ustring \<Rightarrow> dict \<Rightarrow> dict" where
  "merged_data sp url schema_data =
     merge_data schema_data (extract_from_open_graph sp) (extract_from_twitter_card sp)
       (extract_from_html sp url) (detect_industry_from_url url sp)
       (extract_address_from_text sp) url"

text \<open>Elements of the example documents.\<close>

definition ld_json_script :: "json \<Rightarrow> element" where
  "ld_json_script data =
     \<lparr>el_name = u ''script'', el_attrs = [(u ''type'', u ''application/ld+json'')],
      el_string = Some (Encodes data), el_text = []\<rparr>"


definition title_element :: "ustring \<Rightarrow> element" where
  "title_element t = \<lparr>el_name = u ''title'', el_attrs = [], el_string = None, el_text = t\<rparr>"

text \<open>
  The title of scenario B: \<^verbatim>\<open>Joe's Pizza\<close>, a space, an em dash (U+2014), a space,
  \<^verbatim>\<open>Home\<close>. The apostrophe is code point 39.
\<close>

definition joes_title :: ustring where
  "joes_title = u ''Joe'' @ [39] @ u ''s Pizza '' @ [8212] @ u '' Home''"

definition meta_named :: "ustring \<Rightarrow> ustring \<Rightarrow> element" where
  "meta_named n content =
     \<lparr>el_name = u ''meta'', el_attrs = [(u ''name'', n), (u ''content'', content)],
      el_string = None, el_text = []\<rparr>"

text \<open>A field that is absent or a non-empty string.\<close>

definition null_or_nonempty :: "ustring option \<Rightarrow> bool" where
  "null_or_nonempty x = (case x of None \<Rightarrow> True | Some s \<Rightarrow> s \<noteq> [])"

section \<open>Properties\<close>

lemmas class_defs = name_char_def re_word_def py_isalnum_def alnum_ranges_def py_isspace_def
  space_ranges_def



lemma set_py_strip: "set (py_strip s) \<subseteq> set s"
  unfolding py_strip_def by (auto dest!: set_dropWhileD)

lemma py_strip_unchanged:
  assumes "s = [] \<or> (\<not> py_isspace (hd s) \<and> \<not> py_isspace (last s))"
  shows "py_strip s = s"
proof (cases s)
  case Nil
  then show ?thesis by (simp add: py_strip_def)
next
  case (Cons c cs)
  with assms have h: "\<not> py_isspace (hd s)" and l: "\<not> py_isspace (last s)" by auto
  from h have "dropWhile py_isspace s = s"
    by (simp add: dropWhile_eq_self_iff)
  moreover from l have "\<not> py_isspace (hd (rev s))"
    by (simp add: hd_rev)
  then have "dropWhile py_isspace (rev s) = rev s"
    by (simp add: dropWhile_eq_self_iff)
  ultimately show ?thesis by (simp add: py_strip_def)
qed

lemma py_strip_ends:
  "py_strip s = [] \<or> (\<not> py_isspace (hd (py_strip s)) \<and> \<not> py_isspace (last (py_strip s)))"
proof -
  let ?a = "dropWhile py_isspace s"
  let ?b = "dropWhile py_isspace (rev ?a)"
  show ?thesis
  proof (cases "?b = []")
    case True
    then show ?thesis by (simp add: py_strip_def)
  next
    case False
    then have hb: "\<not> py_isspace (hd ?b)" by (metis hd_dropWhile)
    from False have "\<not> (\<forall>x \<in> set (rev ?a). py_isspace x)"
      by (metis dropWhile_eq_Nil_conv)
    then obtain x where x: "x \<in> set (rev ?a)" "\<not> py_isspace x" by blast
    then have "rev ?a \<noteq> []" by (metis empty_iff empty_set)
    then have "?a \<noteq> []" by (metis rev_is_Nil_conv)
    then have ha: "\<not> py_isspace (hd ?a)" by (metis hd_dropWhile)
    from x have "last ?b = last (rev ?a)"
      by (rule dropWhile_last)
    also have "\<dots> = hd ?a" using \<open>?a \<noteq> []\<close> by (simp add: last_rev)
    finally have lb: "\<not> py_isspace (last ?b)" using ha by simp
    have "hd (rev ?b) = last ?b" "last (rev ?b) = hd ?b"
      using False by (simp_all add: hd_rev last_rev)
    with hb lb False show ?thesis by (simp add: py_strip_def)
  qed
qed

lemma filter_name_char_clean:
  "filter name_char (clean_business_name s) = clean_business_name s"
proof -
  have "set (clean_business_name s) \<subseteq> set (filter name_char s)"
    unfolding clean_business_name_def py_strip_def
    by (auto dest!: set_dropWhileD)
  then have "\<forall>c \<in> set (clean_business_name s). name_char c" by auto
  then show ?thesis by (simp add: filter_id_conv)
qed

text \<open>
  C8. A name that is already sanitized (alphanumeric characters and spaces only, no
  whitespace at either end) is returned unchanged by the clean-up, and cleaning twice
  is cleaning once.
\<close>

theorem clean_business_name_idempotent:
  "((\<forall>c \<in> set s. py_isalnum c \<or> c = 32) \<and>
    (s = [] \<or> (\<not> py_isspace (hd s) \<and> \<not> py_isspace (last s)))
      \<longrightarrow> clean_business_name s = s) \<and>
   clean_business_name (clean_business_name s) = clean_business_name s"
proof (intro conjI impI)
  assume a: "(\<forall>c \<in> set s. py_isalnum c \<or> c = 32) \<and>
    (s = [] \<or> (\<not> py_isspace (hd s) \<and> \<not> py_isspace (last s)))"
  have sp: "py_isspace 32" by (simp add: py_isspace_def space_ranges_def)
  from a sp have "\<forall>c \<in> set s. name_char c"
    by (auto simp: name_char_def re_word_def)
  then have "filter name_char s = s" by (simp add: filter_id_conv)
  with a show "clean_business_name s = s"
    by (simp add: clean_business_name_def py_strip_unchanged)
next
  have "py_strip (clean_business_name s) = clean_business_name s"
    unfolding clean_business_name_def
    by (rule py_strip_unchanged) (rule py_strip_ends)
  then show "clean_business_name (clean_business_name s) = clean_business_name s"
    using filter_name_char_clean[of s]
    by (metis clean_business_name_def)
qed

theorem clean_business_name_idempotent_witness:
  "clean_business_name (u ''Acme Salon 24'') = u ''Acme Salon 24'' \<and>
   clean_business_name (clean_business_name (u ''Acme Salon 24''))
     = clean_business_name (u ''Acme Salon 24'')"
proof -
  have "\<forall>c \<in> set (u ''Acme Salon 24''). py_isalnum c \<or> c = 32"
    by (simp add: u_def py_isalnum_def alnum_ranges_def)
  moreover have "\<not> py_isspace (hd (u ''Acme Salon 24'')) \<and> \<not> py_isspace (last (u ''Acme Salon 24''))"
    by (simp add: u_def py_isspace_def space_ranges_def)
  ultimately show ?thesis
    using clean_business_name_idempotent[of "u ''Acme Salon 24''"] by blast
qed

subsection \<open>The character class of the clean-up\<close>




subsection \<open>Industry detection\<close>

text \<open>
  C9. Industry detection returns the same result for every pair of documents, and the
  same result for two URLs that are equal after lower-casing: the document is never
  inspected.
\<close>

theorem detect_industry_url_only:
  "detect_industry_from_url url sp1 = detect_industry_from_url url sp2 \<and>
   (py_lower url = py_lower url' \<longrightarrow>
      detect_industry_from_url url sp1 = detect_industry_from_url url' sp2)"
  by (simp add: detect_industry_from_url_def)

theorem detect_industry_url_only_witness:
  "py_lower (u ''https://Cafe.example'') = py_lower (u ''https://cafe.example'') \<and>
   detect_industry_from_url (u ''https://Cafe.example'') []
     = detect_industry_from_url (u ''https://cafe.example'')
         [\<lparr>el_name = u ''title'', el_attrs = [], el_string = None, el_text = u ''Gym''\<rparr>]"
proof -
  have l: "py_lower (u ''https://Cafe.example'') = py_lower (u ''https://cafe.example'')"
    by (simp add: py_lower_def lower_char_def u_def)
  with detect_industry_url_only[of "u ''https://Cafe.example''" "[]" _ "u ''https://cafe.example''"]
  show ?thesis by blast
qed

subsection \<open>The Instagram bypass\<close>

text \<open>
  A URL that contains \<^verbatim>\<open>instagram.com\<close> but does not start with \<^verbatim>\<open>http://\<close> or
  \<^verbatim>\<open>https://\<close> is rejected with status 400 before the bypass is reached.
\<close>

theorem instagram_bypass_counterexample:
  "py_in (u ''instagram.com'') (py_lower (u ''instagram.com/acme'')) \<and>
   extract_metadata (\<lambda>url. Page []) (u ''instagram.com/acme'') = Inl (HTTPException 400)"
  by (simp add: extract_metadata_def py_lower_def lower_char_def u_def)

text \<open>
  C10, as the code has it. For every URL that starts with \<^verbatim>\<open>http://\<close> or
  \<^verbatim>\<open>https://\<close> and whose lower-cased form contains \<^verbatim>\<open>instagram.com\<close> anywhere, the
  endpoint returns the minimal record whatever the fetch would give: no name, no
  description, industry \<^verbatim>\<open>Social Media\<close>, the requested URL as website, and the
  provenance flags as raw metadata. A URL without either prefix is answered with status
  400, whatever it contains.
\<close>

theorem instagram_bypass:
  "((startswith url (u ''http://'') \<or> startswith url (u ''https://'')) \<and>
    py_in (u ''instagram.com'') (py_lower url) \<longrightarrow>
      extract_metadata fetch url =
        Inr \<lparr>businessName = None, description = None, industry = Some (u ''Social Media''),
             address = None, website = Some url, logo = None,
             rawMetadata = Some [(u ''source'', JStr (u ''instagram'')),
                                 (u ''oauthAvailable'', JBool True)],
             requiresAuth = None, platform = None, authUrl = None\<rparr>) \<and>
   (\<not> (startswith url (u ''http://'') \<or> startswith url (u ''https://'')) \<longrightarrow>
      extract_metadata fetch url = Inl (HTTPException 400))"
  by (simp add: extract_metadata_def instagram_record_def)

theorem instagram_bypass_witness:
  "extract_metadata (\<lambda>url. TimeoutException) (u ''https://example.com/?next=INSTAGRAM.COM/acme'') =
     Inr \<lparr>businessName = None, description = None, industry = Some (u ''Social Media''),
          address = None, website = Some (u ''https://example.com/?next=INSTAGRAM.COM/acme''), logo = None,
          rawMetadata = Some [(u ''source'', JStr (u ''instagram'')), (u ''oauthAvailable'', JBool True)],
          requiresAuth = None, platform = None, authUrl = None\<rparr>
   \<and> extract_metadata (\<lambda>url. TimeoutException) (u ''www.instagram.com/acme'')
       = Inl (HTTPException 400)"
proof -
  have a: "startswith (u ''https://example.com/?next=INSTAGRAM.COM/acme'') (u ''http://'')
      \<or> startswith (u ''https://example.com/?next=INSTAGRAM.COM/acme'') (u ''https://'')"
    by (simp add: u_def)
  have b: "py_in (u ''instagram.com'') (py_lower (u ''https://example.com/?next=INSTAGRAM.COM/acme''))"
    by (simp add: py_lower_def lower_char_def u_def)
  have c: "\<not> (startswith (u ''www.instagram.com/acme'') (u ''http://'')
      \<or> startswith (u ''www.instagram.com/acme'') (u ''https://''))"
    by (simp add: u_def)
  from a b c
    instagram_bypass[of "u ''https://example.com/?next=INSTAGRAM.COM/acme''" "\<lambda>url. TimeoutException"]
    instagram_bypass[of "u ''www.instagram.com/acme''" "\<lambda>url. TimeoutException"]
  show ?thesis by blast
qed

subsection \<open>Structured-data blocks without text\<close>

text \<open>
  C3 at an empty script element followed by a well-formed block: decoding the absent
  text raises \<^verbatim>\<open>TypeError\<close>, which the handler does not name, so the exception
  leaves the extractor and the second block is not processed. A block whose text does
  not decode is skipped, and the block after it is processed.
\<close>

theorem schema_org_missing_text_raises:
  "extract_from_schema_org
     [\<lparr>el_name = u ''script'', el_attrs = [(u ''type'', u ''application/ld+json'')],
       el_string = None, el_text = []\<rparr>,
      ld_json_script (JObj [(u ''@type'', JStr (u ''Organization'')), (u ''name'', JStr (u ''Acme''))])]
   = Inl TypeError
   \<and> extract_from_schema_org
     [\<lparr>el_name = u ''script'', el_attrs = [(u ''type'', u ''application/ld+json'')],
       el_string = Some Malformed, el_text = u ''{oops''\<rparr>,
      ld_json_script (JObj [(u ''@type'', JStr (u ''Organization'')), (u ''name'', JStr (u ''Acme''))])]
   = Inr [(u ''businessName'', JStr (u ''Acme'')), (u ''description'', JNull),
          (u ''address'', JNull), (u ''industry'', JNull)]"
  by (simp add: extract_from_schema_org_def find_all_def ld_json_def attr_def try_script_def
      ld_json_script_def extract_schema_item_def extract_address_def dict_get_def py_or_def
      bind_exn_def py_lower_def lower_char_def u_def)

subsection \<open>The address formatter\<close>






subsection \<open>Several structured-data items\<close>

lemma dict_get_dict_set:
  "dict_get (dict_set d k v) k' = (if k' = k then v else dict_get d k')"
  by (induction d) (auto simp: dict_get_def)

lemma dict_get_Cons:
  "dict_get ((k0, v0) # e) k = (if k = k0 then v0 else dict_get e k)"
  by (simp add: dict_get_def)









subsection \<open>Source priority for the business name\<close>

lemma reconcile_merged:
  "extract_from_schema_org sp = Inr sd \<Longrightarrow>
   reconcile sp url = bind_exn (clean_up (merged_data sp url sd)) make_BusinessMetadata"
  by (simp add: reconcile_def merged_data_def bind_exn_def Let_def)

lemma make_BusinessMetadata_fields:
  assumes "make_BusinessMetadata kw = Inr r"
  shows "optional_str (dict_get kw (u ''businessName'')) = Inr (businessName r)"
    and "optional_str (dict_get kw (u ''description'')) = Inr (description r)"
    and "optional_str (dict_get kw (u ''industry'')) = Inr (industry r)"
    and "optional_str (dict_get kw (u ''address'')) = Inr (address r)"
    and "optional_str (dict_get kw (u ''website'')) = Inr (website r)"
    and "optional_str (dict_get kw (u ''logo'')) = Inr (logo r)"
  using assms
  by (auto simp: make_BusinessMetadata_def bind_exn_def split: sum.splits)

lemma clean_up_cases:
  assumes "clean_up m = Inr m'"
  shows "(\<not> truthy (dict_get m (u ''businessName'')) \<and> m' = m) \<or>
         (\<exists>s. s \<noteq> [] \<and> dict_get m (u ''businessName'') = JStr s \<and>
              m' = dict_set m (u ''businessName'') (JStr (clean_business_name s)))"
  using assms by (auto simp: clean_up_def split: if_splits json.splits)

lemma merged_business_name:
  "dict_get (merged_data sp url sd) (u ''businessName'') =
     py_or (py_or (py_or (dict_get sd (u ''businessName''))
                         (dict_get (extract_from_open_graph sp) (u ''businessName'')))
                  (dict_get (extract_from_twitter_card sp) (u ''businessName'')))
           (dict_get (extract_from_html sp url) (u ''businessName''))"
  by (simp add: merged_data_def merge_data_def dict_get_Cons)





subsection \<open>Scenario B: a page with a title only\<close>

lemma u_eq_iff: "u a = u b \<longleftrightarrow> a = b"
proof -
  have "inj (of_char :: char \<Rightarrow> nat)" by (rule injI) simp
  then show ?thesis by (simp add: u_def)
qed

lemma u_Nil_iff: "u a = [] \<longleftrightarrow> a = []"
  by (simp add: u_def)

lemma merged_get:
  "dict_get (merged_data sp url sd) (u ''description'') =
     py_or (py_or (py_or (dict_get sd (u ''description''))
                         (dict_get (extract_from_open_graph sp) (u ''description'')))
                  (dict_get (extract_from_twitter_card sp) (u ''description'')))
           (dict_get (extract_from_html sp url) (u ''description''))"
  "dict_get (merged_data sp url sd) (u ''industry'') =
     py_or (py_or (dict_get sd (u ''industry''))
                  (dict_get (extract_from_open_graph sp) (u ''industry'')))
           (opt_str (detect_industry_from_url url sp))"
  "dict_get (merged_data sp url sd) (u ''address'') =
     py_or (dict_get sd (u ''address'')) (opt_str (extract_address_from_text sp))"
  "dict_get (merged_data sp url sd) (u ''website'') =
     py_or (dict_get (extract_from_open_graph sp) (u ''website'')) (JStr url)"
  "dict_get (merged_data sp url sd) (u ''logo'') =
     py_or (py_or (dict_get sd (u ''logo''))
                  (dict_get (extract_from_open_graph sp) (u ''logo'')))
           (dict_get (extract_from_twitter_card sp) (u ''logo''))"
  "dict_get (merged_data sp url sd) (u ''rawMetadata'') =
     JObj [(u ''schema'', JObj sd),
           (u ''openGraph'', JObj (extract_from_open_graph sp)),
           (u ''twitter'', JObj (extract_from_twitter_card sp)),
           (u ''html'', JObj (extract_from_html sp url)),
           (u ''detectedIndustry'', opt_str (detect_industry_from_url url sp))]"
  by (simp_all add: merged_data_def merge_data_def dict_get_Cons u_eq_iff)

lemma make_BusinessMetadata_ok:
  assumes "optional_str (dict_get kw (u ''businessName'')) = Inr n"
    and "optional_str (dict_get kw (u ''description'')) = Inr d"
    and "optional_str (dict_get kw (u ''industry'')) = Inr i"
    and "optional_str (dict_get kw (u ''address'')) = Inr a"
    and "optional_str (dict_get kw (u ''website'')) = Inr w"
    and "optional_str (dict_get kw (u ''logo'')) = Inr l"
    and "optional_dict (dict_get kw (u ''rawMetadata'')) = Inr m"
  shows "make_BusinessMetadata kw =
     Inr \<lparr>businessName = n, description = d, industry = i, address = a, website = w,
          logo = l, rawMetadata = m, requiresAuth = None, platform = None, authUrl = None\<rparr>"
  by (simp add: make_BusinessMetadata_def bind_exn_def assms)

lemma clean_joes_title: "clean_business_name joes_title = u ''Joes Pizza  Home''"
  by (simp add: joes_title_def clean_business_name_def py_strip_def class_defs u_def)

lemma strip_joes_title: "py_strip joes_title = joes_title"
  by (simp add: joes_title_def py_strip_def py_isspace_def space_ranges_def u_def)

lemma joespizza_industry:
  "detect_industry_from_url (u ''https://joespizza.example'') sp = None"
  by (simp add: detect_industry_from_url_def industry_patterns_def py_lower_def lower_char_def u_def)

lemma optional_str_opt_str: "optional_str (opt_str x) = Inr x"
  by (cases x) (simp_all add: optional_str_def opt_str_def)

lemma dict_get_Nil: "dict_get [] k = JNull"
  by (simp add: dict_get_def)

lemma title_only_record:
  assumes "find_all sp (u ''script'') ld_json = []"
    and "find_all sp (u ''meta'') (\<lambda>e. attr e (u ''property'') \<noteq> None) = []"
    and "find_all sp (u ''meta'') twitter_name = []"
    and "find_first sp (u ''title'') (\<lambda>e. True) = Some t"
    and "el_text t = joes_title"
    and "find_first sp (u ''h1'') (\<lambda>e. True) = None"
  shows "\<exists>r. reconcile sp (u ''https://joespizza.example'') = Inr r \<and>
     businessName r = Some (u ''Joes Pizza  Home'') \<and>
     industry r = None \<and>
     address r = extract_address_from_text sp \<and>
     website r = Some (u ''https://joespizza.example'') \<and>
     logo r = None \<and>
     description r =
       (case find_first sp (u ''meta'') (\<lambda>e. attr e (u ''name'') = Some (u ''description'')) of
          None \<Rightarrow> None | Some m \<Rightarrow> attr m (u ''content''))"
proof -
  let ?url = "u ''https://joespizza.example''"
  let ?desc = "case find_first sp (u ''meta'') (\<lambda>e. attr e (u ''name'') = Some (u ''description'')) of
          None \<Rightarrow> None | Some m \<Rightarrow> attr m (u ''content'')"
  let ?m = "merged_data sp ?url []"
  let ?kw = "dict_set ?m (u ''businessName'') (JStr (u ''Joes Pizza  Home''))"
  have sd: "extract_from_schema_org sp = Inr []"
    using assms(1) by (simp add: extract_from_schema_org_def)
  have og: "extract_from_open_graph sp = []"
    using assms(2) by (simp add: extract_from_open_graph_def)
  have tw: "extract_from_twitter_card sp = []"
    using assms(3) by (simp add: extract_from_twitter_card_def)
  have html: "dict_get (extract_from_html sp ?url) (u ''businessName'') = JStr joes_title"
    "dict_get (extract_from_html sp ?url) (u ''description'') = opt_str ?desc"
    using assms(4,5,6)
    by (simp_all add: extract_from_html_def Let_def strip_joes_title dict_get_dict_set
        dict_get_Cons dict_get_Nil u_eq_iff opt_str_def split: option.splits)
  have ne: "joes_title \<noteq> []" by (simp add: joes_title_def)
  have bn: "dict_get ?m (u ''businessName'') = JStr joes_title"
    by (simp add: merged_business_name og tw html dict_get_Nil py_or_def ne)
  have cu: "clean_up ?m = Inr ?kw"
    by (simp add: clean_up_def bn ne clean_joes_title)
  have f: "optional_str (dict_get ?kw (u ''businessName'')) = Inr (Some (u ''Joes Pizza  Home''))"
    "optional_str (dict_get ?kw (u ''description'')) = Inr ?desc"
    "optional_str (dict_get ?kw (u ''industry'')) = Inr None"
    "optional_str (dict_get ?kw (u ''address'')) = Inr (extract_address_from_text sp)"
    "optional_str (dict_get ?kw (u ''website'')) = Inr (Some ?url)"
    "optional_str (dict_get ?kw (u ''logo'')) = Inr None"
    "optional_dict (dict_get ?kw (u ''rawMetadata'')) =
       Inr (Some [(u ''schema'', JObj []), (u ''openGraph'', JObj []), (u ''twitter'', JObj []),
                  (u ''html'', JObj (extract_from_html sp ?url)),
                  (u ''detectedIndustry'', JNull)])"
    by (simp_all add: dict_get_dict_set u_eq_iff merged_get og tw html dict_get_Nil py_or_def
        joespizza_industry optional_str_opt_str)
      (simp_all add: optional_str_def optional_dict_def opt_str_def)
  show ?thesis
    unfolding reconcile_merged[OF sd]
    by (simp add: cu bind_exn_def make_BusinessMetadata_ok[OF f])
qed

text \<open>
  On the page that consists of the title alone the record's name is
  \<^verbatim>\<open>Joes Pizza  Home\<close>, with the two spaces that surrounded the dash, and no
  industry is detected: no keyword of the table occurs in
  \<^verbatim>\<open>https://joespizza.example\<close>.
\<close>

theorem scenario_b_counterexample:
  "map_sum id businessName (reconcile [title_element joes_title] (u ''https://joespizza.example''))
     = Inr (Some (u ''Joes Pizza  Home''))
   \<and> u ''Joes Pizza  Home'' \<noteq> u ''Joes Pizza Home''
   \<and> map_sum id industry (reconcile [title_element joes_title] (u ''https://joespizza.example''))
     = Inr None"
proof -
  let ?sp = "[title_element joes_title]"
  have a: "find_all ?sp (u ''script'') ld_json = []"
    "find_all ?sp (u ''meta'') (\<lambda>e. attr e (u ''property'') \<noteq> None) = []"
    "find_all ?sp (u ''meta'') twitter_name = []"
    "find_first ?sp (u ''title'') (\<lambda>e. True) = Some (title_element joes_title)"
    "el_text (title_element joes_title) = joes_title"
    "find_first ?sp (u ''h1'') (\<lambda>e. True) = None"
    by (simp_all add: find_first_def find_all_def title_element_def u_eq_iff)
  from title_only_record[OF a] show ?thesis by (auto simp: u_eq_iff)
qed

text \<open>
  C6, as the code has it. For every document with no structured-data block, no Open
  Graph tag, no card tag and no first-level heading, whose title element reads
  \<^verbatim>\<open>Joe's Pizza\<close>, em dash, \<^verbatim>\<open>Home\<close>, extracted with the URL
  \<^verbatim>\<open>https://joespizza.example\<close>, a record is returned: its name is
  \<^verbatim>\<open>Joes Pizza  Home\<close> with two spaces, its industry is absent, its address is what
  the sniffer finds, its website is the URL, it has no logo, and its description is
  the content of the meta description, if there is one.
\<close>

theorem scenario_b:
  assumes "find_all sp (u ''script'') ld_json = []"
    and "find_all sp (u ''meta'') (\<lambda>e. attr e (u ''property'') \<noteq> None) = []"
    and "find_all sp (u ''meta'') twitter_name = []"
    and "find_first sp (u ''title'') (\<lambda>e. True) = Some t"
    and "el_text t = joes_title"
    and "find_first sp (u ''h1'') (\<lambda>e. True) = None"
  shows "\<exists>r. reconcile sp (u ''https://joespizza.example'') = Inr r \<and>
     businessName r = Some (u ''Joes Pizza  Home'') \<and>
     industry r = None \<and>
     address r = extract_address_from_text sp \<and>
     website r = Some (u ''https://joespizza.example'') \<and>
     logo r = None \<and>
     description r =
       (case find_first sp (u ''meta'') (\<lambda>e. attr e (u ''name'') = Some (u ''description'')) of
          None \<Rightarrow> None | Some m \<Rightarrow> attr m (u ''content''))"
  using assms by (rule title_only_record)

theorem scenario_b_witness:
  "\<exists>r. reconcile [title_element joes_title] (u ''https://joespizza.example'') = Inr r \<and>
     businessName r = Some (u ''Joes Pizza  Home'') \<and> industry r = None \<and> address r = None"
proof -
  let ?sp = "[title_element joes_title]"
  have a: "find_all ?sp (u ''script'') ld_json = []"
    "find_all ?sp (u ''meta'') (\<lambda>e. attr e (u ''property'') \<noteq> None) = []"
    "find_all ?sp (u ''meta'') twitter_name = []"
    "find_first ?sp (u ''title'') (\<lambda>e. True) = Some (title_element joes_title)"
    "el_text (title_element joes_title) = joes_title"
    "find_first ?sp (u ''h1'') (\<lambda>e. True) = None"
    by (simp_all add: find_first_def find_all_def title_element_def u_eq_iff)
  have da: "extract_address_from_text ?sp = None"
    by (simp add: extract_address_from_text_def find_first_def find_all_def title_element_def u_eq_iff)
  from scenario_b[OF a] da show ?thesis by auto
qed

subsection \<open>The fields of the record\<close>

text \<open>
  A match of the address pattern starts with a digit, so it is never empty; every
  other part of the pattern leaves a rest that is no longer than the text it got.
\<close>

lemma m_class_le: "r \<in> set (m_class P s) \<Longrightarrow> length r \<le> length s"
  by (auto simp: m_class_def split: list.splits if_splits)

lemma m_lit_le: "r \<in> set (m_lit w s) \<Longrightarrow> length r \<le> length s"
  by (auto simp: m_lit_def split: if_splits)

lemma m_many_le: "r \<in> set (m_many n P s) \<Longrightarrow> length r \<le> length s"
  by (auto simp: m_many_def)

lemma m_many_less:
  assumes "r \<in> set (m_many (Suc n) P s)"
  shows "length r < length s"
proof -
  from assms obtain k where k: "Suc n \<le> k" "k \<le> length (takeWhile P s)" "r = drop k s"
    by (auto simp: m_many_def)
  have "length (takeWhile P s) \<le> length s" by (rule length_takeWhile_le)
  with k show ?thesis by simp
qed

lemma m_count_le: "r \<in> set (m_count n P s) \<Longrightarrow> length r \<le> length s"
  by (auto simp: m_count_def split: if_splits)

lemma m_seq_le:
  assumes "\<And>s r. r \<in> set (a s) \<Longrightarrow> length r \<le> length s"
    and "\<And>s r. r \<in> set (b s) \<Longrightarrow> length r \<le> length s"
    and "r \<in> set (m_seq a b s)"
  shows "length r \<le> length s"
proof -
  from assms(3) obtain s' where "s' \<in> set (a s)" "r \<in> set (b s')"
    by (auto simp: m_seq_def)
  with assms(1)[of s' s] assms(2)[of r s'] show ?thesis by simp
qed

lemma m_opt_le:
  assumes "\<And>s r. r \<in> set (a s) \<Longrightarrow> length r \<le> length s"
    and "r \<in> set (m_opt a s)"
  shows "length r \<le> length s"
  using assms by (auto simp: m_opt_def)

lemma m_alts_le:
  assumes "\<And>a s r. a \<in> set as \<Longrightarrow> r \<in> set (a s) \<Longrightarrow> length r \<le> length s"
    and "r \<in> set (m_alts as s)"
  shows "length r \<le> length s"
  using assms by (induction as) auto

lemma m_seqs_le:
  assumes "\<And>a s r. a \<in> set as \<Longrightarrow> r \<in> set (a s) \<Longrightarrow> length r \<le> length s"
    and "r \<in> set (m_seqs as s)"
  shows "length r \<le> length s"
  using assms
proof (induction as arbitrary: s r)
  case Nil
  then show ?case by simp
next
  case (Cons a as)
  from Cons.prems(2) obtain s' where s': "s' \<in> set (a s)" "r \<in> set (m_seqs as s')"
    by (auto simp: m_seq_def)
  have "length r \<le> length s'"
  proof (rule Cons.IH)
    fix b t q
    assume "b \<in> set as" "q \<in> set (b t)"
    then show "length q \<le> length t" using Cons.prems(1)[of b q t] by simp
  next
    show "r \<in> set (m_seqs as s')" by (rule s'(2))
  qed
  moreover have "length s' \<le> length s"
    using Cons.prems(1)[of a s' s] s'(1) by simp
  ultimately show ?case by simp
qed

lemma address_pattern_less:
  assumes "r \<in> set (address_pattern s)"
  shows "length r < length s"
proof -
  let ?rest = "[m_many 1 py_isspace,
        m_class upper_az,
        m_many 1 lower_az,
        m_many 1 py_isspace,
        m_alts (map m_lit street_types),
        m_many 1 (\<lambda>c. c = 44 \<or> py_isspace c),
        m_class upper_az,
        m_many 1 lower_az,
        m_opt (m_seqs [m_lit (u '',''), m_many 0 py_isspace, m_count 2 upper_az]),
        m_opt (m_seqs [m_many 0 py_isspace, m_count 5 py_isdecimal])]"
  have g1: "length r \<le> length s"
    if "r \<in> set (m_opt (m_seqs [m_lit (u '',''), m_many 0 py_isspace, m_count 2 upper_az]) s)"
    for s r
  proof (rule m_opt_le[OF _ that])
    fix s r
    assume "r \<in> set (m_seqs [m_lit (u '',''), m_many 0 py_isspace, m_count 2 upper_az] s)"
    with _ show "length r \<le> length s"
      by (rule m_seqs_le) (auto dest: m_lit_le m_many_le m_count_le)
  qed
  have g2: "length r \<le> length s"
    if "r \<in> set (m_opt (m_seqs [m_many 0 py_isspace, m_count 5 py_isdecimal]) s)" for s r
  proof (rule m_opt_le[OF _ that])
    fix s r
    assume "r \<in> set (m_seqs [m_many 0 py_isspace, m_count 5 py_isdecimal] s)"
    with _ show "length r \<le> length s"
      by (rule m_seqs_le) (auto dest: m_many_le m_count_le)
  qed
  have g3: "length r \<le> length s" if "r \<in> set (m_alts (map m_lit street_types) s)" for s r
    using _ that by (rule m_alts_le) (auto dest: m_lit_le)
  have rest: "length r \<le> length s" if "a \<in> set ?rest" "r \<in> set (a s)" for a s r
    using that by (auto dest: m_many_le m_class_le g1 g2 g3)
  have "address_pattern s = concat (map (m_seqs ?rest) (m_many 1 py_isdecimal s))"
    by (simp only: address_pattern_def m_seqs.simps(2)[of "m_many 1 py_isdecimal" ?rest] m_seq_def)
  with assms obtain s' where s': "s' \<in> set (m_many 1 py_isdecimal s)" "r \<in> set (m_seqs ?rest s')"
    by (auto simp only: set_concat set_map)
  from s'(1) have "length s' < length s" using m_many_less[of s' 0] by simp
  moreover have "length r \<le> length s'"
    using rest s'(2) by (rule m_seqs_le)
  ultimately show ?thesis by simp
qed

lemma match_here_nonempty:
  assumes "\<And>s r. r \<in> set (m s) \<Longrightarrow> length r < length s" and "match_here m s = Some x"
  shows "x \<noteq> []"
proof -
  from assms(2) obtain r rs where r: "m s = r # rs" "x = take (length s - length r) s"
    by (auto simp: match_here_def split: list.splits)
  from r(1) assms(1)[of r s] have "length r < length s" by simp
  with r(2) show ?thesis by auto
qed

lemma first_match_nonempty:
  assumes "\<And>s r. r \<in> set (m s) \<Longrightarrow> length r < length s" and "first_match m t = Some x"
  shows "x \<noteq> []"
  using assms(2)
proof (induction t)
  case Nil
  then show ?case using match_here_nonempty[OF assms(1)] by simp
next
  case (Cons c cs)
  then show ?case using match_here_nonempty[OF assms(1)]
    by (auto split: option.splits)
qed

lemma sniffed_nonempty: "extract_address_from_text sp = Some x \<Longrightarrow> x \<noteq> []"
  using first_match_nonempty[of address_pattern, OF address_pattern_less]
  by (auto simp: extract_address_from_text_def split: option.splits)

text \<open>A detected industry is the capitalized form of a key of the table.\<close>

lemma first_industry_nonempty:
  assumes "first_industry ul tab = Some x" and "\<forall>(k, ps) \<in> set tab. k \<noteq> []"
  shows "x \<noteq> []"
  using assms
  by (induction ul tab rule: first_industry.induct)
     (auto simp: capitalize_def split: if_splits list.splits)

lemma detected_nonempty: "detect_industry_from_url url sp = Some x \<Longrightarrow> x \<noteq> []"
  unfolding detect_industry_from_url_def
  by (erule first_industry_nonempty) (simp add: industry_patterns_def u_Nil_iff)

text \<open>The social-preview extractors store non-empty strings only.\<close>

lemma set_dict_set: "set (dict_set d k v) \<subseteq> insert (k, v) (set d)"
  by (induction d) (auto split: if_splits)

lemma assign_first_strings:
  assumes "\<forall>(k, v) \<in> set acc. \<exists>c. v = JStr c \<and> c \<noteq> []"
  shows "\<forall>(k, v) \<in> set (assign_first mp key meta acc). \<exists>c. v = JStr c \<and> c \<noteq> []"
proof -
  have ds: "\<forall>(k, v) \<in> set (dict_set acc f (JStr c)). \<exists>c. v = JStr c \<and> c \<noteq> []"
    if "c \<noteq> []" for f c
    using assms that set_dict_set[of acc f "JStr c"] by auto
  let ?lowered = "py_lower (case attr meta key of None \<Rightarrow> [] | Some p \<Rightarrow> p)"
  show ?thesis
  proof (cases "map_of mp ?lowered")
    case None
    then show ?thesis using assms by (simp add: assign_first_def)
  next
    case field: (Some field)
    show ?thesis
    proof (cases "attr meta (u ''content'')")
      case None
      with field show ?thesis using assms by (simp add: assign_first_def)
    next
      case (Some content)
      with field show ?thesis using assms ds[of content field]
        by (simp add: assign_first_def)
    qed
  qed
qed

lemma fold_assign_first_strings:
  assumes "\<forall>(k, v) \<in> set acc. \<exists>c. v = JStr c \<and> c \<noteq> []"
  shows "\<forall>(k, v) \<in> set (fold (assign_first mp key) metas acc). \<exists>c. v = JStr c \<and> c \<noteq> []"
  using assms
proof (induction metas arbitrary: acc)
  case Nil
  then show ?case by simp
next
  case (Cons m metas)
  show ?case
    using Cons.IH[OF assign_first_strings[OF Cons.prems]] by simp
qed

lemma dict_get_strings:
  assumes "\<forall>(k, v) \<in> set d. \<exists>c. v = JStr c \<and> c \<noteq> []"
  shows "dict_get d k = JNull \<or> (\<exists>c. dict_get d k = JStr c \<and> c \<noteq> [])"
proof (cases "map_of d k")
  case None
  then show ?thesis by (simp add: dict_get_def)
next
  case (Some v)
  then have "(k, v) \<in> set d" by (rule map_of_SomeD)
  with assms Some show ?thesis by (auto simp: dict_get_def)
qed

lemma twitter_get:
  "dict_get (extract_from_twitter_card sp) k = JNull
   \<or> (\<exists>c. dict_get (extract_from_twitter_card sp) k = JStr c \<and> c \<noteq> [])"
  unfolding extract_from_twitter_card_def
  by (rule dict_get_strings, rule fold_assign_first_strings) simp

lemma optional_str_cases:
  assumes "optional_str v = Inr x"
  shows "(v = JNull \<and> x = None) \<or> (\<exists>s. v = JStr s \<and> x = Some s)"
  using assms by (cases v) (auto simp: optional_str_def)

lemma py_or_JStr: "py_or a b = JStr s \<Longrightarrow> s \<noteq> [] \<or> b = JStr s"
  by (auto simp: py_or_def split: if_splits)

lemma py_or_JNull: "py_or a b = JNull \<Longrightarrow> b = JNull"
  by (auto simp: py_or_def split: if_splits)

lemma field_nonempty:
  assumes "optional_str (py_or a b) = Inr x"
    and "b = JNull \<or> (\<exists>c. b = JStr c \<and> c \<noteq> [])"
  shows "null_or_nonempty x"
proof -
  from optional_str_cases[OF assms(1)] show ?thesis
  proof
    assume "py_or a b = JNull \<and> x = None"
    then show ?thesis by (simp add: null_or_nonempty_def)
  next
    assume "\<exists>s. py_or a b = JStr s \<and> x = Some s"
    then obtain s where s: "py_or a b = JStr s" "x = Some s" by blast
    from py_or_JStr[OF s(1)] assms(2) have "s \<noteq> []" by auto
    with s(2) show ?thesis by (simp add: null_or_nonempty_def)
  qed
qed

lemma opt_str_cases:
  assumes "\<And>c. x = Some c \<Longrightarrow> c \<noteq> []"
  shows "opt_str x = JNull \<or> (\<exists>c. opt_str x = JStr c \<and> c \<noteq> [])"
  using assms by (cases x) (auto simp: opt_str_def)

lemma reconcile_Inr:
  assumes "reconcile sp url = Inr r"
  shows "\<exists>sd kw. extract_from_schema_org sp = Inr sd \<and>
           clean_up (merged_data sp url sd) = Inr kw \<and> make_BusinessMetadata kw = Inr r"
  using assms
  by (auto simp: reconcile_def merged_data_def bind_exn_def Let_def split: sum.splits)

lemma cleaned_name:
  "(\<forall>c \<in> set (clean_business_name s).
      py_isalnum c \<or> c = 95 \<or> py_isspace c \<or> c = 45 \<or> c = 38) \<and>
   (clean_business_name s = [] \<or>
      (\<not> py_isspace (hd (clean_business_name s)) \<and> \<not> py_isspace (last (clean_business_name s))))"
proof
  have "set (clean_business_name s) \<subseteq> set (filter name_char s)"
    unfolding clean_business_name_def by (rule set_py_strip)
  then show "\<forall>c \<in> set (clean_business_name s).
      py_isalnum c \<or> c = 95 \<or> py_isspace c \<or> c = 45 \<or> c = 38"
    by (auto simp: name_char_def re_word_def)
  show "clean_business_name s = [] \<or>
      (\<not> py_isspace (hd (clean_business_name s)) \<and> \<not> py_isspace (last (clean_business_name s)))"
    unfolding clean_business_name_def by (rule py_strip_ends)
qed

lemma reconcile_fields:
  assumes "reconcile sp url = Inr r" and "url \<noteq> []"
  shows "null_or_nonempty (industry r)" and "null_or_nonempty (address r)"
    and "null_or_nonempty (logo r)" and "website r \<noteq> None" and "null_or_nonempty (website r)"
    and "\<forall>s. businessName r = Some s \<longrightarrow>
          (\<forall>c \<in> set s. py_isalnum c \<or> c = 95 \<or> py_isspace c \<or> c = 45 \<or> c = 38) \<and>
          (s = [] \<or> (\<not> py_isspace (hd s) \<and> \<not> py_isspace (last s)))"
proof -
  let ?bn = "u ''businessName''"
  from reconcile_Inr[OF assms(1)] obtain sd kw where
    sd: "extract_from_schema_org sp = Inr sd" and
    cu: "clean_up (merged_data sp url sd) = Inr kw" and
    mk: "make_BusinessMetadata kw = Inr r" by blast
  let ?m = "merged_data sp url sd"
  note cc = clean_up_cases[OF cu]
  have other: "dict_get kw k = dict_get ?m k" if "k \<noteq> ?bn" for k
    using cc that by (auto simp: dict_get_dict_set)
  have i: "optional_str (dict_get ?m (u ''industry'')) = Inr (industry r)"
    using make_BusinessMetadata_fields(3)[OF mk] by (simp add: other u_eq_iff)
  have a: "optional_str (dict_get ?m (u ''address'')) = Inr (address r)"
    using make_BusinessMetadata_fields(4)[OF mk] by (simp add: other u_eq_iff)
  have w: "optional_str (dict_get ?m (u ''website'')) = Inr (website r)"
    using make_BusinessMetadata_fields(5)[OF mk] by (simp add: other u_eq_iff)
  have l: "optional_str (dict_get ?m (u ''logo'')) = Inr (logo r)"
    using make_BusinessMetadata_fields(6)[OF mk] by (simp add: other u_eq_iff)
  show "null_or_nonempty (industry r)"
    using i unfolding merged_get
    by (rule field_nonempty) (rule opt_str_cases, erule detected_nonempty)
  show "null_or_nonempty (address r)"
    using a unfolding merged_get
    by (rule field_nonempty) (rule opt_str_cases, erule sniffed_nonempty)
  show "null_or_nonempty (logo r)"
    using l unfolding merged_get
    by (rule field_nonempty) (rule twitter_get)
  show "null_or_nonempty (website r)"
    using w unfolding merged_get
    by (rule field_nonempty) (simp add: assms(2))
  show "website r \<noteq> None"
  proof
    assume "website r = None"
    with w have "dict_get ?m (u ''website'') = JNull"
      by (auto dest: optional_str_cases)
    then show False unfolding merged_get by (auto dest: py_or_JNull)
  qed
  show "\<forall>s. businessName r = Some s \<longrightarrow>
          (\<forall>c \<in> set s. py_isalnum c \<or> c = 95 \<or> py_isspace c \<or> c = 45 \<or> c = 38) \<and>
          (s = [] \<or> (\<not> py_isspace (hd s) \<and> \<not> py_isspace (last s)))"
  proof (intro allI impI)
    fix s
    assume s: "businessName r = Some s"
    from make_BusinessMetadata_fields(1)[OF mk] s
    have g: "dict_get kw ?bn = JStr s" by (auto dest: optional_str_cases)
    from cc show "(\<forall>c \<in> set s. py_isalnum c \<or> c = 95 \<or> py_isspace c \<or> c = 45 \<or> c = 38) \<and>
          (s = [] \<or> (\<not> py_isspace (hd s) \<and> \<not> py_isspace (last s)))"
    proof
      assume "\<not> truthy (dict_get ?m ?bn) \<and> kw = ?m"
      with g have "s = []" by auto
      then show ?thesis by simp
    next
      assume "\<exists>t. t \<noteq> [] \<and> dict_get ?m ?bn = JStr t \<and>
              kw = dict_set ?m ?bn (JStr (clean_business_name t))"
      then obtain t where "kw = dict_set ?m ?bn (JStr (clean_business_name t))" by blast
      with g have "s = clean_business_name t" by (simp add: dict_get_dict_set)
      then show ?thesis using cleaned_name[of t] by simp
    qed
  qed
qed

text \<open>
  A title that consists of stripped characters only, and a meta description with empty
  content: the record that the endpoint returns has the empty string as its name and
  as its description.
\<close>

theorem record_fields_counterexample:
  "map_sum id businessName
     (extract_metadata (\<lambda>url. Page [title_element (u ''!!!''), meta_named (u ''description'') []])
        (u ''https://x.example'')) = Inr (Some [])
   \<and> map_sum id description
     (extract_metadata (\<lambda>url. Page [title_element (u ''!!!''), meta_named (u ''description'') []])
        (u ''https://x.example'')) = Inr (Some [])"
proof -
  let ?sp = "[title_element (u ''!!!''), meta_named (u ''description'') []]"
  let ?url = "u ''https://x.example''"
  let ?html = "[(u ''businessName'', JStr (u ''!!!'')), (u ''description'', JStr [])]"
  let ?m = "merged_data ?sp ?url []"
  let ?kw = "dict_set ?m (u ''businessName'') (JStr [])"
  have sd: "extract_from_schema_org ?sp = Inr []"
    by (simp add: extract_from_schema_org_def find_all_def title_element_def meta_named_def u_eq_iff)
  have og: "extract_from_open_graph ?sp = []"
    by (simp add: extract_from_open_graph_def find_all_def title_element_def meta_named_def
        attr_def u_eq_iff)
  have tw: "extract_from_twitter_card ?sp = []"
    by (simp add: extract_from_twitter_card_def find_all_def title_element_def meta_named_def
        attr_def twitter_name_def u_eq_iff) (simp add: u_def ci_char_def)
  have st: "py_strip (u ''!!!'') = u ''!!!''"
    by (simp add: py_strip_def py_isspace_def space_ranges_def u_def)
  have html: "extract_from_html ?sp ?url = ?html"
    by (simp add: extract_from_html_def find_first_def find_all_def title_element_def
        meta_named_def attr_def u_eq_iff opt_str_def st)
  have di: "detect_industry_from_url ?url ?sp = None"
    by (simp add: detect_industry_from_url_def industry_patterns_def py_lower_def lower_char_def u_def)
  have da: "extract_address_from_text ?sp = None"
    by (simp add: extract_address_from_text_def find_first_def find_all_def title_element_def
        meta_named_def u_eq_iff)
  have cl: "clean_business_name (u ''!!!'') = []"
    by (simp add: clean_business_name_def py_strip_def class_defs u_def)
  have bn: "dict_get ?m (u ''businessName'') = JStr (u ''!!!'')"
    by (simp add: merged_business_name og tw html dict_get_Nil dict_get_Cons py_or_def u_Nil_iff)
  have cu: "clean_up ?m = Inr ?kw"
    by (simp add: clean_up_def bn cl u_Nil_iff)
  have f: "optional_str (dict_get ?kw (u ''businessName'')) = Inr (Some [])"
    "optional_str (dict_get ?kw (u ''description'')) = Inr (Some [])"
    "optional_str (dict_get ?kw (u ''industry'')) = Inr None"
    "optional_str (dict_get ?kw (u ''address'')) = Inr None"
    "optional_str (dict_get ?kw (u ''website'')) = Inr (Some ?url)"
    "optional_str (dict_get ?kw (u ''logo'')) = Inr None"
    "optional_dict (dict_get ?kw (u ''rawMetadata'')) =
       Inr (Some [(u ''schema'', JObj []), (u ''openGraph'', JObj []), (u ''twitter'', JObj []),
                  (u ''html'', JObj ?html), (u ''detectedIndustry'', JNull)])"
    by (simp_all add: dict_get_dict_set u_eq_iff merged_get og tw html di da dict_get_Nil
        dict_get_Cons py_or_def optional_str_def optional_dict_def opt_str_def)
  have r: "reconcile ?sp ?url =
      Inr \<lparr>businessName = Some [], description = Some [], industry = None, address = None,
           website = Some ?url, logo = None,
           rawMetadata = Some [(u ''schema'', JObj []), (u ''openGraph'', JObj []),
             (u ''twitter'', JObj []), (u ''html'', JObj ?html), (u ''detectedIndustry'', JNull)],
           requiresAuth = None, platform = None, authUrl = None\<rparr>"
    unfolding reconcile_merged[OF sd]
    by (simp add: cu bind_exn_def make_BusinessMetadata_ok[OF f])
  have pre: "startswith ?url (u ''https://'')" "\<not> py_in (u ''instagram.com'') (py_lower ?url)"
    by (simp_all add: py_lower_def lower_char_def u_def)
  show ?thesis
    by (simp add: extract_metadata_def pre r)
qed

text \<open>
  C2, as the code has it. In every record that the endpoint returns, for every fetch
  result and URL, the industry, the address and the logo are absent or non-empty
  strings, the website is a non-empty string, and the name, when present, consists of
  alphanumeric characters, underscores, whitespace, hyphens and ampersands only and has
  no whitespace at either end; the name and the description may be the empty string.
\<close>

theorem record_fields:
  assumes "extract_metadata fetch url = Inr r"
  shows "null_or_nonempty (industry r) \<and> null_or_nonempty (address r) \<and>
     null_or_nonempty (logo r) \<and> website r \<noteq> None \<and> null_or_nonempty (website r) \<and>
     (\<forall>s. businessName r = Some s \<longrightarrow>
          (\<forall>c \<in> set s. py_isalnum c \<or> c = 95 \<or> py_isspace c \<or> c = 45 \<or> c = 38) \<and>
          (s = [] \<or> (\<not> py_isspace (hd s) \<and> \<not> py_isspace (last s))))"
proof -
  have ok: "startswith url (u ''http://'') \<or> startswith url (u ''https://'')"
    using assms by (auto simp: extract_metadata_def split: if_splits)
  then have ne: "url \<noteq> []" by (auto simp: u_def)
  show ?thesis
  proof (cases "py_in (u ''instagram.com'') (py_lower url)")
    case True
    with ok assms have "r = instagram_record url" by (simp add: extract_metadata_def)
    then show ?thesis
      using ne by (simp add: instagram_record_def null_or_nonempty_def u_Nil_iff)
  next
    case False
    with ok assms obtain sp where "reconcile sp url = Inr r"
      by (auto simp: extract_metadata_def split: fetched.splits sum.splits)
    from reconcile_fields[OF this ne] show ?thesis by blast
  qed
qed

theorem record_fields_witness:
  "\<exists>r. extract_metadata (\<lambda>url. Page [title_element joes_title]) (u ''https://joespizza.example'')
         = Inr r \<and>
       null_or_nonempty (industry r) \<and> null_or_nonempty (address r) \<and>
       null_or_nonempty (logo r) \<and> website r \<noteq> None \<and> null_or_nonempty (website r) \<and>
       businessName r = Some (u ''Joes Pizza  Home'') \<and>
       \<not> py_isspace (hd (u ''Joes Pizza  Home''))"
proof -
  let ?sp = "[title_element joes_title]"
  let ?url = "u ''https://joespizza.example''"
  have a: "find_all ?sp (u ''script'') ld_json = []"
    "find_all ?sp (u ''meta'') (\<lambda>e. attr e (u ''property'') \<noteq> None) = []"
    "find_all ?sp (u ''meta'') twitter_name = []"
    "find_first ?sp (u ''title'') (\<lambda>e. True) = Some (title_element joes_title)"
    "el_text (title_element joes_title) = joes_title"
    "find_first ?sp (u ''h1'') (\<lambda>e. True) = None"
    by (simp_all add: find_first_def find_all_def title_element_def u_eq_iff)
  from title_only_record[OF a] obtain r where
    r: "reconcile ?sp ?url = Inr r" and n: "businessName r = Some (u ''Joes Pizza  Home'')"
    by blast
  have pre: "startswith ?url (u ''https://'')" "\<not> py_in (u ''instagram.com'') (py_lower ?url)"
    by (simp_all add: py_lower_def lower_char_def u_def)
  have e: "extract_metadata (\<lambda>url. Page ?sp) ?url = Inr r"
    by (simp add: extract_metadata_def pre r)
  have ne: "u ''Joes Pizza  Home'' \<noteq> []" by (simp add: u_Nil_iff)
  from record_fields[OF e] n ne e show ?thesis by auto
qed

end
